theory Spec2Isabelle
  imports Complex_Main
begin

section \<open>JavaScript strings and number formatting\<close>

text \<open>
  Error messages are JavaScript strings; the route handlers classify an error by
  searching its message (\<open>String.prototype.includes\<close>), so messages are kept as
  strings. A character outside ASCII is written as its UTF-8 bytes.
\<close>

fun startsWith :: "string \<Rightarrow> string \<Rightarrow> bool" where
  "startsWith s [] = True"
| "startsWith [] (c # cs) = False"
| "startsWith (x # xs) (c # cs) = (x = c \<and> startsWith xs cs)"

fun includes_str :: "string \<Rightarrow> string \<Rightarrow> bool" where
  "includes_str [] pat = (pat = [])"
| "includes_str (x # xs) pat = (startsWith (x # xs) pat \<or> includes_str xs pat)"

definition digit_char :: "nat \<Rightarrow> char" where
  "digit_char d = ''0123456789'' ! (d mod 10)"

fun show_nat :: "nat \<Rightarrow> string" where
  "show_nat n = (if n < 10 then [digit_char n] else show_nat (n div 10) @ [digit_char n])"

declare show_nat.simps [simp del]

definition show_int :: "int \<Rightarrow> string" where
  "show_int i = (if i < 0 then CHR ''-'' # show_nat (nat (- i)) else show_nat (nat i))"

section \<open>The tables of one tenant schema\<close>

text \<open>
  A table is the list of its rows in insertion order, with the columns the statements
  name. Money columns (\<open>DECIMAL(_,2)\<close>) are counted in hundredths; the stock and
  price columns of a product hold a value. The serial \<open>id\<close> and the \<open>created_at\<close> of
  a movement are left out: the order of the list is the order of insertion, hence of
  \<open>created_at\<close>.
\<close>

record product =
  prod_id :: nat
  sku :: string
  name :: string
  cost_price :: int
  selling_price :: int
  current_stock :: int
  min_stock_threshold :: int
  max_stock_threshold :: int
  active :: bool

text \<open>
  The \<open>quantity\<close> of a request body is what the JSON carries: a number (\<open>Num n\<close>,
  an integer) or a string. Of the strings, the decimal numerals of integers are
  modelled: \<open>NumStr n\<close> is the string \<open>show_int n\<close>. In a row of
  \<open>inventory_movements\<close> the quantity is an integer.
\<close>

datatype js_quantity = Num int | NumStr int

record 'q movementData =
  product_id :: nat
  movement_type :: string
  quantity :: 'q
  cost_per_unit :: "int option"
  reference_type :: string
  reference_id :: "nat option"
  notes_txt :: "string option"

type_synonym request_movementData = "js_quantity movementData"

record movement = "int movementData" +
  previous_stock :: int
  new_stock :: int

text \<open>
  JSON values, for the \<open>data\<close> column of an insight and for response bodies.
  \<open>JNum\<close> is an integer, \<open>JFloat\<close> a double.
\<close>

datatype json = JNum int | JFloat rat | JStr string | JBool bool | JArr "json list"
  | JObj "(string \<times> json) list"

record insightData =
  triggered_by :: string
  insight_type :: string
  priority :: string
  title :: string
  description :: string
  recommendation :: string
  business_impact :: string
  confidence :: nat
  channels :: "string list"
  data :: json
  expires_at :: "nat option"

record insight = insightData +
  insight_id :: string
  status :: string
  created_at :: nat

record schema_db =
  products :: "product list"
  inventory_movements :: "movement list"
  insights :: "insight list"

section \<open>JavaScript values and integer columns\<close>

text \<open>
  A value as the JavaScript of \<open>addMovement\<close> holds it: a number or a string.
  \<open>Math.abs\<close> turns a numeric string into its number; \<open>+\<close> adds two numbers and
  joins a number to a string; \<open>< 0\<close> compares the number a string denotes, and is false
  when it denotes none.
\<close>

datatype js_value = Number int | Text string

definition quantity_value :: "js_quantity \<Rightarrow> js_value" where
  "quantity_value q = (case q of Num n \<Rightarrow> Number n | NumStr n \<Rightarrow> Text (show_int n))"

definition abs_quantity :: "js_quantity \<Rightarrow> int" where
  "abs_quantity q = (case q of Num n \<Rightarrow> \<bar>n\<bar> | NumStr n \<Rightarrow> \<bar>n\<bar>)"

definition digit_of :: "char \<Rightarrow> nat option" where
  "digit_of c = map_of (zip ''0123456789'' [0, 1, 2, 3, 4, 5, 6, 7, 8, 9]) c"

fun digits_value :: "nat \<Rightarrow> string \<Rightarrow> nat option" where
  "digits_value acc [] = Some acc"
| "digits_value acc (c # cs) =
     (case digit_of c of None \<Rightarrow> None | Some d \<Rightarrow> digits_value (10 * acc + d) cs)"

text \<open>
  The integer a string of digits with an optional leading \<open>-\<close> denotes; no other
  string comes up here. JavaScript and the integer input of PostgreSQL read these
  strings alike.
\<close>

definition numeral_value :: "string \<Rightarrow> int option" where
  "numeral_value s =
     (case s of
        [] \<Rightarrow> None
      | c # cs \<Rightarrow>
          if c = CHR ''-'' then
            (if cs = [] then None else map_option (\<lambda>n. - int n) (digits_value 0 cs))
          else map_option int (digits_value 0 (c # cs)))"

definition to_number :: "js_value \<Rightarrow> int option" where
  "to_number v = (case v of Number n \<Rightarrow> Some n | Text s \<Rightarrow> numeral_value s)"

definition js_plus :: "int \<Rightarrow> js_value \<Rightarrow> js_value" where
  "js_plus c v = (case v of Number n \<Rightarrow> Number (c + n) | Text s \<Rightarrow> Text (show_int c @ s))"

definition less_zero :: "js_value \<Rightarrow> bool" where
  "less_zero v = (case to_number v of None \<Rightarrow> False | Some n \<Rightarrow> n < 0)"

text \<open>
  A parameter bound to an \<open>INTEGER\<close> column: the driver sends the value as text and
  PostgreSQL reads it back, refusing what is no integer or lies outside 32 bits. A
  number is sent as its decimal numeral.
\<close>

definition in_integer :: "int \<Rightarrow> bool" where
  "in_integer n = (- 2147483648 \<le> n \<and> n \<le> 2147483647)"

definition out_of_range :: "string \<Rightarrow> string" where
  "out_of_range txt = ''value '' @ [CHR 0x22] @ txt @ [CHR 0x22] @ '' is out of range for type integer''"

definition integer_param :: "js_value \<Rightarrow> string + int" where
  "integer_param v =
     (case v of
        Number n \<Rightarrow> if in_integer n then Inr n else Inl (out_of_range (show_int n))
      | Text s \<Rightarrow>
          (case numeral_value s of
             None \<Rightarrow> Inl (''invalid input syntax for type integer: '' @ [CHR 0x22] @ s @ [CHR 0x22])
           | Some n \<Rightarrow> if in_integer n then Inr n else Inl (out_of_range s)))"

section \<open>Inventory.addMovement\<close>

text \<open>
  The \<open>switch\<close> on \<open>movement_type\<close>: the stock change, or the message of the error
  thrown.
\<close>

definition stockChange_of :: "string \<Rightarrow> js_quantity \<Rightarrow> int \<Rightarrow> string + js_value" where
  "stockChange_of mtype qty currentStock =
     (if mtype = ''entrada'' then Inr (Number (abs_quantity qty))
      else if mtype = ''salida'' then
        (if less_zero (js_plus currentStock (Number (- abs_quantity qty)))
         then Inl ''No hay suficiente stock para realizar esta salida''
         else Inr (Number (- abs_quantity qty)))
      else if mtype = ''ajuste'' then
        (if less_zero (js_plus currentStock (quantity_value qty))
         then Inl (''El ajuste resultar'' @ [CHR 0xC3, CHR 0xAD] @ ''a en stock negativo'')
         else Inr (quantity_value qty))
      else if mtype = ''sincronizacion'' then Inr (quantity_value qty)
      else Inl (''Tipo de movimiento no v'' @ [CHR 0xC3, CHR 0xA1] @ ''lido''))"

text \<open>
  The \<open>INSERT\<close> into \<open>inventory_movements\<close>: the row stored, or the message of the
  database when it refuses a parameter. The table is that of the schema with the
  columns the statement names: \<open>quantity\<close>, \<open>new_stock\<close> and \<open>reference_id\<close> are
  \<open>INTEGER\<close>, \<open>reference_type\<close> is an enumeration, \<open>cost_per_unit\<close> is
  \<open>DECIMAL(10,2)\<close>. \<open>previous_stock\<close> was read from an \<open>INTEGER\<close> column, and
  \<open>movement_type\<close> is one of the kinds the code writes, each a value of the
  enumeration of its column. The parameters are read in their order; the cost is
  fitted to its column when the row is built.
\<close>

definition reference_type_enum :: "string list" where
  "reference_type_enum = [''venta'', ''compra'', ''ajuste'', ''sync'']"

definition reference_id_fits :: "nat option \<Rightarrow> bool" where
  "reference_id_fits rid = (case rid of None \<Rightarrow> True | Some r \<Rightarrow> in_integer (int r))"

text \<open>A cost, in hundredths, that \<open>DECIMAL(10,2)\<close> holds: less than \<open>10^8\<close> units.\<close>

definition cost_fits :: "int option \<Rightarrow> bool" where
  "cost_fits cost = (case cost of None \<Rightarrow> True | Some c \<Rightarrow> \<bar>c\<bar> < 10000000000)"

definition insert_movement ::
  "nat \<Rightarrow> string \<Rightarrow> js_value \<Rightarrow> int \<Rightarrow> js_value \<Rightarrow> int option \<Rightarrow> string \<Rightarrow> nat option
     \<Rightarrow> string option \<Rightarrow> string + movement" where
  "insert_movement pid mtype stockChange previousStock newStock cost rtype rid note =
     (case integer_param stockChange of
        Inl e \<Rightarrow> Inl e
      | Inr q \<Rightarrow>
          (case integer_param newStock of
             Inl e \<Rightarrow> Inl e
           | Inr ns \<Rightarrow>
               if rtype \<notin> set reference_type_enum then
                 Inl (''invalid input value for enum reference_type_enum: '' @ [CHR 0x22]
                      @ rtype @ [CHR 0x22])
               else if \<not> reference_id_fits rid then
                 Inl (out_of_range (show_nat (the rid)))
               else if \<not> cost_fits cost then
                 Inl ''numeric field overflow''
               else
                 Inr \<lparr> product_id = pid, movement_type = mtype, quantity = q,
                       cost_per_unit = cost, reference_type = rtype, reference_id = rid,
                       notes_txt = note, previous_stock = previousStock, new_stock = ns \<rparr>))"

definition set_stock :: "nat \<Rightarrow> int \<Rightarrow> product list \<Rightarrow> product list" where
  "set_stock pid v ps = map (\<lambda>p. if prod_id p = pid then p\<lparr>current_stock := v\<rparr> else p) ps"

definition movement_error :: "string \<Rightarrow> string" where
  "movement_error msg = ''Error registrando movimiento: '' @ msg"

text \<open>
  \<open>addMovement\<close> returns what the promise settles to (\<open>Inl\<close> the message of the
  rejection, \<open>Inr\<close> the inserted row) and the tables afterwards. A \<open>throw\<close> comes
  before the first write and a refused \<open>INSERT\<close> writes nothing, so a rejected call
  leaves the tables as they were. The \<open>SELECT\<close> compares \<open>product_id\<close> with the
  \<open>INTEGER\<close> column \<open>id\<close>: a number outside the range of that column, which is the
  \<open>id\<close> of no row, is refused by the database.
\<close>

definition addMovement ::
  "string \<Rightarrow> schema_db \<Rightarrow> request_movementData \<Rightarrow> (string + movement) \<times> schema_db" where
  "addMovement tenantSchema db movementData =
     (if tenantSchema = [] then
        (Inl ''tenantSchema es requerido para operaciones multi-tenant'', db)
      else
        case filter (\<lambda>p. prod_id p = product_id movementData) (products db) of
          [] \<Rightarrow>
            if \<not> in_integer (int (product_id movementData)) then
              (Inl (movement_error (out_of_range (show_nat (product_id movementData)))), db)
            else
              (Inl (movement_error (''Producto con ID '' @ show_nat (product_id movementData)
                      @ '' no encontrado'')), db)
        | row # _ \<Rightarrow>
            (let currentStock = current_stock row;
                 previousStock = currentStock
             in case stockChange_of (movement_type movementData) (quantity movementData)
                       currentStock of
                  Inl msg \<Rightarrow> (Inl (movement_error msg), db)
                | Inr stockChange \<Rightarrow>
                    (let newStock = js_plus currentStock stockChange
                     in case insert_movement (product_id movementData)
                               (movement_type movementData) stockChange previousStock newStock
                               (cost_per_unit movementData) (reference_type movementData)
                               (reference_id movementData) (notes_txt movementData) of
                          Inl msg \<Rightarrow> (Inl (movement_error msg), db)
                        | Inr m \<Rightarrow>
                            (Inr m,
                             db\<lparr> inventory_movements := inventory_movements db @ [m],
                                 products := set_stock (product_id movementData) (new_stock m)
                                               (products db) \<rparr>))))"

definition stock_of :: "schema_db \<Rightarrow> nat \<Rightarrow> int option" where
  "stock_of db pid =
     (case filter (\<lambda>p. prod_id p = pid) (products db) of
        [] \<Rightarrow> None
      | row # _ \<Rightarrow> Some (current_stock row))"

definition movements_of :: "schema_db \<Rightarrow> nat \<Rightarrow> movement list" where
  "movements_of db pid = filter (\<lambda>m. product_id m = pid) (inventory_movements db)"

text \<open>A sequence of calls; a rejected call leaves the tables to the next one.\<close>

definition record_all :: "string \<Rightarrow> schema_db \<Rightarrow> request_movementData list \<Rightarrow> schema_db" where
  "record_all tenantSchema db reqs =
     foldl (\<lambda>d r. snd (addMovement tenantSchema d r)) db reqs"

text \<open>
  The \<open>catch\<close> block of \<open>POST /movements\<close>: status and error code chosen from
  the message of the rejection.
\<close>

definition post_movements_error :: "string \<Rightarrow> nat \<times> string" where
  "post_movements_error message =
     (if includes_str message ''no encontrado'' then (404, ''PRODUCT_NOT_FOUND'')
      else if includes_str message ''No hay suficiente stock'' then (400, ''INSUFFICIENT_STOCK'')
      else (500, ''ADD_MOVEMENT_ERROR''))"

section \<open>Inventory.syncInventory\<close>

text \<open>
  An entry of \<open>sync_data\<close>. \<open>external_stock\<close> is the integer the entry carries, as a
  number or as its numeral: the subtraction turns either into the number.
\<close>

record syncItem =
  item_product_id :: nat
  external_stock :: int
  item_cost_price :: "int option"
  item_notes :: "string option"

record syncResults =
  processed :: nat
  updated :: nat
  errors :: "string list"
  movements_created :: nat

text \<open>
  The loop runs between \<open>BEGIN\<close> and \<open>COMMIT\<close>, issued one after the other on the
  pool; in a run of its own the statements share the connection. A statement the
  database refuses aborts the transaction: the statements after it are refused too,
  and \<open>COMMIT\<close> then rolls the whole run back. The state of the loop is the tables as
  the transaction sees them, the report, and whether the transaction is aborted.
\<close>

record sync_state =
  working :: schema_db
  results :: syncResults
  aborted :: bool

definition item_error :: "nat \<Rightarrow> string \<Rightarrow> string" where
  "item_error pid msg = ''Error procesando producto '' @ show_nat pid @ '': '' @ msg"

definition push_error :: "string \<Rightarrow> syncResults \<Rightarrow> syncResults" where
  "push_error e r = r\<lparr> errors := errors r @ [e] \<rparr>"

text \<open>One turn of the \<open>for\<close> loop, with its inner \<open>catch\<close>.\<close>

definition sync_item :: "sync_state \<Rightarrow> syncItem \<Rightarrow> sync_state" where
  "sync_item st item =
     (let db = working st; syncResults = results st;
          notes = (case item_notes item of
                     None \<Rightarrow> ''Sincronizaci'' @ [CHR 0xC3, CHR 0xB3] @ ''n externa''
                   | Some n \<Rightarrow> n)
      in if aborted st then
           st\<lparr> results := push_error (item_error (item_product_id item)
                   (''current transaction is aborted, commands ignored until end of ''
                    @ ''transaction block'')) syncResults \<rparr>
         else
           case filter (\<lambda>p. prod_id p = item_product_id item) (products db) of
             [] \<Rightarrow>
               if \<not> in_integer (int (item_product_id item)) then
                 st\<lparr> results := push_error (item_error (item_product_id item)
                         (out_of_range (show_nat (item_product_id item)))) syncResults,
                     aborted := True \<rparr>
               else
                 st\<lparr> results := push_error (''Producto con ID ''
                         @ show_nat (item_product_id item) @ '' no encontrado'') syncResults \<rparr>
           | row # _ \<Rightarrow>
               (let currentStock = current_stock row;
                    difference = external_stock item - currentStock;
                    counted = syncResults\<lparr> processed := processed syncResults + 1 \<rparr>
                in if difference \<noteq> 0 then
                     (case insert_movement (item_product_id item) ''sincronizacion''
                             (Number difference) currentStock (Number (external_stock item))
                             (item_cost_price item) ''sync'' None
                             (Some (notes @ '' - Diferencia: '' @ show_int difference)) of
                        Inl msg \<Rightarrow>
                          st\<lparr> results := push_error (item_error (item_product_id item) msg) counted,
                              aborted := True \<rparr>
                      | Inr m \<Rightarrow>
                          st\<lparr> working := db\<lparr> inventory_movements := inventory_movements db @ [m],
                                             products := set_stock (item_product_id item)
                                                           (external_stock item) (products db) \<rparr>,
                              results := counted\<lparr> updated := updated counted + 1,
                                movements_created := movements_created counted + 1 \<rparr> \<rparr>)
                   else st\<lparr> results := counted \<rparr>))"

definition sync_loop :: "schema_db \<Rightarrow> syncItem list \<Rightarrow> sync_state" where
  "sync_loop db syncData =
     foldl sync_item
       \<lparr> working = db,
         results = \<lparr> processed = 0, updated = 0, errors = [], movements_created = 0 \<rparr>,
         aborted = False \<rparr>
       syncData"

definition syncInventory ::
  "string \<Rightarrow> schema_db \<Rightarrow> syncItem list \<Rightarrow> (string + syncResults) \<times> schema_db" where
  "syncInventory tenantSchema db syncData =
     (if tenantSchema = [] then
        (Inl ''tenantSchema es requerido para operaciones multi-tenant'', db)
      else
        (let st = sync_loop db syncData
         in (Inr (results st), if aborted st then db else working st)))"

section \<open>Inventory.getFIFOValuation\<close>

text \<open>
  The query, column by column, for one row \<open>p\<close> of \<open>products\<close>. The derived table
  \<open>im\<close> holds the product's \<open>entrada\<close> rows of positive quantity, newest first, each
  with the running sum of the quantities down to it.
\<close>

definition entrada_rows :: "schema_db \<Rightarrow> product \<Rightarrow> movement list" where
  "entrada_rows db p =
     rev (filter (\<lambda>m. product_id m = prod_id p \<and> movement_type m = ''entrada'' \<and> quantity m > 0)
            (inventory_movements db))"

fun running_stock :: "int \<Rightarrow> movement list \<Rightarrow> (movement \<times> int) list" where
  "running_stock acc [] = []"
| "running_stock acc (m # ms) =
     (m, acc + \<bar>quantity m\<bar>) # running_stock (acc + \<bar>quantity m\<bar>) ms"

definition layer_value :: "product \<Rightarrow> movement \<times> int \<Rightarrow> int" where
  "layer_value p row =
     (let m = fst row; running = snd row;
          cost = (case cost_per_unit m of Some c \<Rightarrow> c | None \<Rightarrow> cost_price p)
      in if running \<le> current_stock p then \<bar>quantity m\<bar> * cost
         else if running - \<bar>quantity m\<bar> < current_stock p
           then (current_stock p - (running - \<bar>quantity m\<bar>)) * cost
         else 0)"

text \<open>\<open>SUM\<close> over no rows is \<open>NULL\<close>.\<close>

definition sql_sum :: "int list \<Rightarrow> int option" where
  "sql_sum xs = (if xs = [] then None else Some (sum_list xs))"

definition fifo_value :: "schema_db \<Rightarrow> product \<Rightarrow> int" where
  "fifo_value db p =
     (if current_stock p > 0 then
        (let rows = entrada_rows db p;
             total_in = sum_list (map (\<lambda>m. \<bar>quantity m\<bar>) rows);
             kept = filter (\<lambda>row. snd row > total_in - current_stock p) (running_stock 0 rows)
         in case sql_sum (map (layer_value p) kept) of
              Some v \<Rightarrow> v
            | None \<Rightarrow> current_stock p * cost_price p)
      else 0)"

record valuation =
  v_product_id :: nat
  v_sku :: string
  v_product_name :: string
  v_current_stock :: int
  v_current_cost :: int
  fifo_valuation :: int
  current_cost_valuation :: int
  selling_value_estimate :: int
  potential_profit :: int

text \<open>
  A row of the result. Money is in hundredths and quantities are integers, so
  \<open>ROUND(_, 2)\<close> changes nothing and the inner column is never \<open>NULL\<close>.
\<close>

definition valuation_row :: "schema_db \<Rightarrow> product \<Rightarrow> valuation" where
  "valuation_row db p =
     \<lparr> v_product_id = prod_id p,
       v_sku = sku p,
       v_product_name = name p,
       v_current_stock = current_stock p,
       v_current_cost = cost_price p,
       fifo_valuation = fifo_value db p,
       current_cost_valuation = current_stock p * cost_price p,
       selling_value_estimate = current_stock p * selling_price p,
       potential_profit = current_stock p * selling_price p - fifo_value db p \<rparr>"

datatype fifo_result = One_row "valuation option" | All_rows "valuation list"

text \<open>
  \<open>productId\<close> is \<open>None\<close> for \<open>null\<close>; \<open>0\<close> is as falsy as \<open>null\<close>. Rows of equal
  value keep their table order under \<open>ORDER BY fifo_valuation DESC\<close>.
\<close>

definition getFIFOValuation ::
  "string \<Rightarrow> schema_db \<Rightarrow> nat option \<Rightarrow> string + fifo_result" where
  "getFIFOValuation tenantSchema db productId =
     (if tenantSchema = [] then
        Inl ''tenantSchema es requerido para operaciones multi-tenant''
      else
        (let given = (productId \<noteq> None \<and> productId \<noteq> Some 0);
             selected = filter (\<lambda>p. (if given then Some (prod_id p) = productId else True) \<and> active p)
                          (products db);
             rows = sort_key (\<lambda>r. - fifo_valuation r) (map (valuation_row db) selected)
         in if given then Inr (One_row (case rows of [] \<Rightarrow> None | r # _ \<Rightarrow> Some r))
            else Inr (All_rows rows)))"

section \<open>Insights.create and Insights.generateInventoryInsights\<close>

text \<open>
  Times are milliseconds since the epoch; \<open>confidence\<close> is in hundredths. What a call
  reads from outside the tables is its sample: the clock (one instant for the reads of
  one \<open>create\<close>) and the text drawn from \<open>Math.random\<close>.
\<close>

record sample =
  now :: nat
  rnd :: string

definition new_insight_id :: "string \<Rightarrow> sample \<Rightarrow> string" where
  "new_insight_id ty smp = ty @ ''_'' @ show_nat (now smp) @ ''_'' @ rnd smp"

text \<open>
  The \<open>INSERT\<close> is refused when \<open>insight_id\<close> (a \<open>UNIQUE\<close> column) is taken; no other
  row is looked at.
\<close>

definition create ::
  "string \<Rightarrow> schema_db \<Rightarrow> sample \<Rightarrow> insightData \<Rightarrow> (string + insight) \<times> schema_db" where
  "create tenantSchema db smp insightData =
     (if tenantSchema = [] then
        (Inl ''tenantSchema es requerido para operaciones multi-tenant'', db)
      else
        (let ident = new_insight_id (insight_type insightData) smp
         in if ident \<in> set (map insight_id (insights db)) then
              (Inl (''Error creando insight: duplicate key value violates unique constraint ''
                    @ [CHR 0x22] @ ''insights_insight_id_key'' @ [CHR 0x22]), db)
            else
              (let row = \<lparr> triggered_by = triggered_by insightData,
                             insight_type = insight_type insightData,
                             priority = priority insightData,
                             title = title insightData,
                             description = description insightData,
                             recommendation = recommendation insightData,
                             business_impact = business_impact insightData,
                             confidence = confidence insightData,
                             channels = channels insightData,
                             data = data insightData,
                             expires_at = expires_at insightData,
                             insight_id = ident,
                             status = ''generated'',
                             created_at = now smp \<rparr>
               in (Inr row, db\<lparr> insights := insights db @ [row] \<rparr>))))"

definition days_ms :: "nat \<Rightarrow> nat" where
  "days_ms d = d * 24 * 60 * 60 * 1000"

text \<open>
  What the code leaves to the database and to the arithmetic of the machine is a
  parameter of a run, its \<open>engine\<close>. A query without \<open>ORDER BY\<close> returns its rows
  in the order the scan meets them, \<open>scan_position\<close>; rows that \<open>ORDER BY\<close> finds
  equal come in the order of \<open>tie_position\<close>. \<open>float8\<close> rounds a rational number to
  the double nearest to it; a double is the rational number it denotes.
\<close>

record engine =
  scan_position :: "product \<Rightarrow> nat"
  tie_position :: "product \<Rightarrow> nat"
  float8 :: "rat \<Rightarrow> rat"

text \<open>
  \<open>Number.prototype.toFixed(2)\<close>: the sign, then the hundredths nearest to the
  absolute value (the larger of two that are equally near).
\<close>

definition toFixed2 :: "rat \<Rightarrow> string" where
  "toFixed2 x =
     (let n = nat \<lfloor>\<bar>x\<bar> * 100 + 1 / 2\<rfloor>
      in (if x < 0 then ''-'' else []) @ show_nat (n div 100) @ ''.''
           @ [digit_char (n div 10), digit_char n])"

text \<open>The three queries over \<open>products\<close>.\<close>

definition outOfStock_query :: "engine \<Rightarrow> schema_db \<Rightarrow> product list" where
  "outOfStock_query e db =
     take 10 (sort_key (scan_position e)
       (filter (\<lambda>p. current_stock p = 0 \<and> active p) (products db)))"

definition lowStock_query :: "engine \<Rightarrow> schema_db \<Rightarrow> product list" where
  "lowStock_query e db =
     take 15 (sort_key (\<lambda>p. float8 e (of_int (current_stock p) / of_int (min_stock_threshold p)))
       (sort_key (tie_position e)
          (filter (\<lambda>p. current_stock p > 0 \<and> current_stock p \<le> min_stock_threshold p \<and> active p)
             (products db))))"

definition overStock_query :: "engine \<Rightarrow> schema_db \<Rightarrow> product list" where
  "overStock_query e db =
     take 10 (sort_key (\<lambda>p. - current_stock p)
       (sort_key (tie_position e)
          (filter (\<lambda>p. current_stock p > max_stock_threshold p \<and> active p) (products db))))"

text \<open>
  The column \<open>tied_capital\<close> of the third query, in hundredths, and the double that
  \<open>parseFloat\<close> reads from it.
\<close>

definition tied_capital :: "product \<Rightarrow> int" where
  "tied_capital p = current_stock p * cost_price p"

definition parseFloat_tied :: "engine \<Rightarrow> product \<Rightarrow> rat" where
  "parseFloat_tied e p = float8 e (of_int (tied_capital p) / 100)"

text \<open>The advisory each rule builds from the rows of its query.\<close>

definition outOfStock_insight :: "nat \<Rightarrow> product list \<Rightarrow> insightData" where
  "outOfStock_insight t outOfStockProducts =
     \<lparr> triggered_by = ''inventory_monitor'',
       insight_type = ''alert'',
       priority = ''critical'',
       title = [CHR 0xF0, CHR 0x9F, CHR 0x9A, CHR 0xA8] @ '' ''
                 @ show_nat (length outOfStockProducts) @ '' productos sin stock'',
       description = ''Se detectaron '' @ show_nat (length outOfStockProducts)
         @ '' productos completamente agotados que requieren reabastecimiento inmediato.'',
       recommendation = ''Revisar y programar pedidos urgentes para evitar p''
         @ [CHR 0xC3, CHR 0xA9] @ ''rdida de ventas.'',
       business_impact = ''Alto riesgo de p'' @ [CHR 0xC3, CHR 0xA9]
         @ ''rdida de ventas y clientes insatisfechos.'',
       confidence = 95,
       channels = [''dashboard'', ''whatsapp'', ''email''],
       data = JObj [(''affected_products'', JNum (int (length outOfStockProducts))),
                    (''product_list'',
                       JArr (map (\<lambda>p. JObj [(''sku'', JStr (sku p)), (''name'', JStr (name p))])
                               outOfStockProducts))],
       expires_at = Some (t + days_ms 7) \<rparr>"

definition lowStock_insight :: "nat \<Rightarrow> product list \<Rightarrow> insightData" where
  "lowStock_insight t lowStockProducts =
     \<lparr> triggered_by = ''inventory_monitor'',
       insight_type = ''alert'',
       priority = ''high'',
       title = [CHR 0xE2, CHR 0x9A, CHR 0xA0, CHR 0xEF, CHR 0xB8, CHR 0x8F] @ '' ''
                 @ show_nat (length lowStockProducts) @ '' productos con stock bajo'',
       description = ''Se identificaron '' @ show_nat (length lowStockProducts)
         @ '' productos cerca del l'' @ [CHR 0xC3, CHR 0xAD] @ ''mite m''
         @ [CHR 0xC3, CHR 0xAD] @ ''nimo de stock.'',
       recommendation = ''Programar pedidos de reabastecimiento en los pr''
         @ [CHR 0xC3, CHR 0xB3] @ ''ximos d'' @ [CHR 0xC3, CHR 0xAD] @ ''as.'',
       business_impact = ''Riesgo medio de agotamiento si no se act''
         @ [CHR 0xC3, CHR 0xBA] @ ''a pronto.'',
       confidence = 90,
       channels = [''dashboard'', ''whatsapp''],
       data = JObj [(''affected_products'', JNum (int (length lowStockProducts))),
                    (''product_list'',
                       JArr (map (\<lambda>p. JObj [(''sku'', JStr (sku p)), (''name'', JStr (name p)),
                                              (''current_stock'', JNum (current_stock p)),
                                              (''min_threshold'', JNum (min_stock_threshold p))])
                               lowStockProducts))],
       expires_at = Some (t + days_ms 5) \<rparr>"

definition overStock_insight :: "engine \<Rightarrow> nat \<Rightarrow> product list \<Rightarrow> insightData" where
  "overStock_insight e t overStockProducts =
     (let totalTiedCapital =
            foldl (\<lambda>sum p. float8 e (sum + parseFloat_tied e p)) 0 overStockProducts
      in \<lparr> triggered_by = ''inventory_monitor'',
            insight_type = ''opportunity'',
            priority = ''medium'',
            title = [CHR 0xF0, CHR 0x9F, CHR 0x92, CHR 0xB0] @ '' Oportunidad: ''
                      @ show_nat (length overStockProducts) @ '' productos sobrestockeados'',
            description = ''Se detectaron productos con stock excesivo que representa $''
              @ toFixed2 totalTiedCapital @ '' en capital inmovilizado.'',
            recommendation =
              ''Considerar promociones o descuentos para rotar el inventario excesivo.'',
            business_impact = ''Liberar capital inmovilizado y optimizar flujo de caja.'',
            confidence = 85,
            channels = [''dashboard''],
            data = JObj [(''affected_products'', JNum (int (length overStockProducts))),
                         (''tied_capital'', JFloat totalTiedCapital),
                         (''product_list'',
                            JArr (map (\<lambda>p. JObj [(''sku'', JStr (sku p)), (''name'', JStr (name p)),
                                      (''excess_stock'',
                                         JNum (current_stock p - max_stock_threshold p)),
                                      (''tied_capital'', JFloat (parseFloat_tied e p))])
                                    overStockProducts))],
            expires_at = Some (t + days_ms 14) \<rparr>)"

text \<open>
  One numbered block of \<open>generateInventoryInsights\<close>: run the query, and when it
  has rows, create the advisory and push it. A rejection in an earlier block skips the
  later ones.
\<close>

definition rule_block ::
  "string \<Rightarrow> sample \<Rightarrow> (schema_db \<Rightarrow> product list) \<Rightarrow> (nat \<Rightarrow> product list \<Rightarrow> insightData)
     \<Rightarrow> (string + insight list) \<times> schema_db \<Rightarrow> (string + insight list) \<times> schema_db" where
  "rule_block tenantSchema smp query build st =
     (case fst st of
        Inl err \<Rightarrow> st
      | Inr generatedInsights \<Rightarrow>
          (let rows = query (snd st)
           in if rows = [] then st
              else case create tenantSchema (snd st) smp (build (now smp) rows) of
                     (Inl err, db') \<Rightarrow> (Inl err, db')
                   | (Inr i, db') \<Rightarrow> (Inr (generatedInsights @ [i]), db')))"

definition generateInventoryInsights ::
  "string \<Rightarrow> engine \<Rightarrow> schema_db \<Rightarrow> sample \<times> sample \<times> sample
     \<Rightarrow> (string + insight list) \<times> schema_db" where
  "generateInventoryInsights tenantSchema e db smps =
     (if tenantSchema = [] then
        (Inl ''tenantSchema es requerido para operaciones multi-tenant'', db)
      else
        (let s1 = fst smps; s2 = fst (snd smps); s3 = snd (snd smps);
             st = rule_block tenantSchema s3 (overStock_query e) (overStock_insight e)
                    (rule_block tenantSchema s2 (lowStock_query e) lowStock_insight
                       (rule_block tenantSchema s1 (outOfStock_query e) outOfStock_insight
                          (Inr [], db)))
         in case fst st of
              Inl err \<Rightarrow> (Inl (''Error generando insights de inventario: '' @ err), snd st)
            | Inr generatedInsights \<Rightarrow> st))"

text \<open>
  What identifies an advisory apart from when it was made: the rule that made it and
  the evidence it carries.
\<close>

definition natural_key :: "insight \<Rightarrow> string \<times> string \<times> string \<times> string \<times> json" where
  "natural_key i = (triggered_by i, insight_type i, priority i, title i, data i)"

definition is_active :: "nat \<Rightarrow> insight \<Rightarrow> bool" where
  "is_active t i = (case expires_at i of None \<Rightarrow> True | Some e \<Rightarrow> e > t)"

section \<open>Inventory.recordMovement of the single-schema model\<close>

text \<open>
  The earlier, single-schema \<open>Inventory\<close> model records a movement with
  \<open>recordMovement\<close>. Its argument leaves \<open>reference_type\<close> optional.
\<close>

record movementRequest =
  rq_product_id :: nat
  rq_movement_type :: string
  rq_quantity :: int
  rq_cost_per_unit :: "int option"
  rq_reference_type :: "string option"
  rq_reference_id :: "nat option"
  rq_notes :: "string option"

definition recordMovement ::
  "schema_db \<Rightarrow> movementRequest \<Rightarrow> (string + movement) \<times> schema_db" where
  "recordMovement db movementData =
     (let reference_type = (case rq_reference_type movementData of None \<Rightarrow> ''ajuste'' | Some r \<Rightarrow> r)
      in if rq_movement_type movementData \<notin> set [''entrada'', ''salida''] then
           (Inl (movement_error (''Tipo de movimiento inv'' @ [CHR 0xC3, CHR 0xA1] @ ''lido: '' @ rq_movement_type movementData)), db)
         else
           case filter (\<lambda>p. prod_id p = rq_product_id movementData \<and> active p) (products db) of
             [] \<Rightarrow>
               (Inl (movement_error (''Producto con ID '' @ show_nat (rq_product_id movementData)
                       @ '' no encontrado o inactivo'')), db)
           | currentProduct # _ \<Rightarrow>
               (let previousStock = current_stock currentProduct;
                    adjustedQuantity = (if rq_movement_type movementData = ''entrada''
                                        then \<bar>rq_quantity movementData\<bar>
                                        else - \<bar>rq_quantity movementData\<bar>);
                    newStock = previousStock + adjustedQuantity
                in if newStock < 0 then
                     (Inl (movement_error (''Stock insuficiente. Stock actual: ''
                             @ show_int previousStock @ '', Cantidad solicitada: ''
                             @ show_int \<bar>rq_quantity movementData\<bar>)), db)
                   else
                     (let finalCostPerUnit =
                            (case rq_cost_per_unit movementData of
                               None \<Rightarrow> cost_price currentProduct
                             | Some c \<Rightarrow> if c = 0 then cost_price currentProduct else c);
                          m = \<lparr> product_id = rq_product_id movementData,
                                movement_type = rq_movement_type movementData,
                                quantity = adjustedQuantity,
                                cost_per_unit = Some finalCostPerUnit,
                                reference_type = reference_type,
                                reference_id = rq_reference_id movementData,
                                notes_txt = rq_notes movementData,
                                previous_stock = previousStock,
                                new_stock = newStock \<rparr>
                      in (Inr m,
                          db\<lparr> inventory_movements := inventory_movements db @ [m],
                              products := set_stock (rq_product_id movementData) newStock
                                            (products db) \<rparr>))))"

section \<open>TenantService: the registry of tenants and their schemas\<close>

record tenant =
  tenant_code :: string
  company_name :: string
  plan :: string
  tenant_active :: bool

text \<open>
  \<open>public.tenants\<close> and the names of the schemas that exist
  (\<open>information_schema.schemata\<close>).
\<close>

record registry =
  tenants :: "tenant list"
  schemata :: "string list"

definition schema_name :: "tenant \<Rightarrow> string" where
  "schema_name t = ''tenant_'' @ tenant_code t"

definition getTenant :: "registry \<Rightarrow> string \<Rightarrow> tenant option" where
  "getTenant reg tenantCode =
     (case filter (\<lambda>t. tenant_code t = tenantCode \<and> tenant_active t) (tenants reg) of
        [] \<Rightarrow> None
      | t # _ \<Rightarrow> Some t)"

definition schemaExists :: "registry \<Rightarrow> string \<Rightarrow> bool" where
  "schemaExists reg schemaName = (schemaName \<in> set (schemata reg))"

text \<open>
  \<open>drop_error\<close> is the outcome of \<open>DROP SCHEMA\<close>: \<open>None\<close> when the statement
  succeeds, the driver's message when it fails. The \<open>DELETE\<close> that follows is taken
  to succeed.
\<close>

definition deleteTenant ::
  "registry \<Rightarrow> string \<Rightarrow> bool \<Rightarrow> string option \<Rightarrow> (string + bool) \<times> registry" where
  "deleteTenant reg tenantCode confirmDelete drop_error =
     (if \<not> confirmDelete then
        (Inl (''Debe confirmar expl'' @ [CHR 0xC3, CHR 0xAD] @ ''citamente la eliminaci'' @ [CHR 0xC3, CHR 0xB3] @ ''n del tenant''), reg)
      else
        case getTenant reg tenantCode of
          None \<Rightarrow>
            (Inl (''Error eliminando tenant: Tenant '' @ tenantCode @ '' no encontrado''), reg)
        | Some t \<Rightarrow>
            (let schemaName = schema_name t
             in case drop_error of
                  Some e \<Rightarrow> (Inl (''Error eliminando tenant: '' @ e), reg)
                | None \<Rightarrow>
                    (Inr True,
                     reg\<lparr> schemata := filter (\<lambda>n. n \<noteq> schemaName) (schemata reg),
                          tenants := filter (\<lambda>t. tenant_code t \<noteq> tenantCode) (tenants reg) \<rparr>)))"

text \<open>
  A response is its status and its JSON body; the \<open>timestamp\<close> field of a body is
  left out.
\<close>

datatype response = Response nat json

text \<open>\<open>DELETE /api/admin/tenants/:tenantCode\<close>; \<open>confirm\<close> is the query parameter.\<close>

definition delete_tenant_route ::
  "registry \<Rightarrow> string \<Rightarrow> string option \<Rightarrow> string option \<Rightarrow> response \<times> registry" where
  "delete_tenant_route reg tenantCode confirm drop_error =
     (if confirm \<noteq> Some ''DELETE_EVERYTHING'' then
        (Response 400 (JObj [(''error'', JStr ''CONFIRMATION_REQUIRED''),
           (''message'', JStr (''Para eliminar un tenant permanentemente debe usar ?confirm=DELETE_EVERYTHING'')),
           (''warning'', JStr (''Esta operaci'' @ [CHR 0xC3, CHR 0xB3] @ ''n NO SE PUEDE DESHACER'')),
           (''tenant_code'', JStr tenantCode)]), reg)
      else
        case deleteTenant reg tenantCode True drop_error of
          (Inl message, reg') \<Rightarrow>
            (Response 500 (JObj [(''error'', JStr ''DELETE_TENANT_ERROR''),
               (''message'', JStr message), (''tenant_code'', JStr tenantCode)]), reg')
        | (Inr success, reg') \<Rightarrow>
            if \<not> success then
              (Response 404 (JObj [(''error'', JStr ''TENANT_NOT_FOUND''),
                 (''message'', JStr (''Tenant '' @ tenantCode @ '' no encontrado'')),
                 (''tenant_code'', JStr tenantCode)]), reg')
            else
              (Response 200 (JObj [(''success'', JBool True),
                 (''message'', JStr (''Tenant '' @ tenantCode @ '' eliminado PERMANENTEMENTE'')),
                 (''warning'', JStr ''Todos los datos han sido eliminados''),
                 (''tenant_code'', JStr tenantCode)]), reg'))"

section \<open>tenantMiddleware\<close>

text \<open>
  What the middleware reads of a request. A field is \<open>None\<close> when the request does
  not carry it.
\<close>

record request =
  x_tenant :: "string option"
  hostname :: "string option"
  params_tenantCode :: "string option"
  path :: string
  query_tenant :: "string option"

definition truthy :: "string option \<Rightarrow> bool" where
  "truthy v = (v \<noteq> None \<and> v \<noteq> Some [])"

fun split_on :: "char \<Rightarrow> string \<Rightarrow> string list" where
  "split_on c [] = [Nil]"
| "split_on c (x # xs) =
     (if x = c then [] # split_on c xs
      else case split_on c xs of
             [] \<Rightarrow> [x] # []
           | h # t \<Rightarrow> (x # h) # t)"

text \<open>The group of \<open>/^\/api\/tenant\/([^\/]+)\//\<close>, when the path matches.\<close>

definition path_match :: "string \<Rightarrow> string option" where
  "path_match p =
     (if startsWith p ''/api/tenant/'' then
        (let rest = drop (length ''/api/tenant/'') p;
             seg = takeWhile (\<lambda>c. c \<noteq> CHR ''/'') rest
         in if seg \<noteq> [] \<and> dropWhile (\<lambda>c. c \<noteq> CHR ''/'') rest \<noteq> [] then Some seg else None)
      else None)"

text \<open>The chain of \<open>if\<close> and \<open>else if\<close> that sets \<open>tenantCode\<close>.\<close>

definition tenantCode_of :: "request \<Rightarrow> string option" where
  "tenantCode_of req =
     (if truthy (x_tenant req) then x_tenant req
      else if truthy (hostname req) \<and> hostname req \<noteq> Some ''localhost''
              \<and> \<not> startsWith (the (hostname req)) ''127.0.0.1'' then
        (let hostParts = split_on CHR ''.'' (the (hostname req))
         in if length hostParts \<ge> 2 then
              (let subdomain = hd hostParts
               in if subdomain \<noteq> [] \<and> subdomain \<noteq> ''www'' \<and> subdomain \<noteq> ''api''
                  then Some subdomain else None)
            else None)
      else if truthy (params_tenantCode req) then params_tenantCode req
      else if path req \<noteq> [] \<and> startsWith (path req) ''/api/tenant/'' then path_match (path req)
      else if truthy (query_tenant req) then query_tenant req
      else None)"

definition publicRoutes :: "string list" where
  "publicRoutes = [''/api/health'', ''/api/system'', ''/api/admin'', ''/api/tenants'',
                   ''/favicon.ico'']"

definition tenant_required :: response where
  "tenant_required =
     Response 400 (JObj [(''error'', JStr ''TENANT_REQUIRED''),
       (''message'', JStr (''Se requiere especificar el tenant. Use header X-Tenant, subdominio, o par'' @ [CHR 0xC3, CHR 0xA1] @ ''metro tenant.'')),
       (''methods'', JObj [(''header'', JStr ''X-Tenant: abc123''),
                           (''subdomain'', JStr ''abc123.fluxionai.com''),
                           (''url_param'', JStr ''/api/tenant/abc123/products''),
                           (''query_param'', JStr ''/api/products?tenant=abc123'')])])"

record tenant_context =
  req_tenant :: tenant
  req_tenantCode :: string
  req_tenantSchema :: string

text \<open>
  The middleware answers the request itself or hands it on (\<open>next()\<close>), with the
  tenant context when a tenant was resolved. The registry queries are taken to succeed.
\<close>

datatype middleware_result = Respond response | Next_handler "tenant_context option"

definition tenantMiddleware :: "registry \<Rightarrow> request \<Rightarrow> middleware_result" where
  "tenantMiddleware reg req =
     (let tenantCode = tenantCode_of req
      in if \<not> truthy tenantCode \<and> \<not> list_ex (\<lambda>route. startsWith (path req) route) publicRoutes
         then Respond tenant_required
         else if truthy tenantCode then
           (case getTenant reg (the tenantCode) of
              None \<Rightarrow>
                Respond (Response 404 (JObj [(''error'', JStr ''TENANT_NOT_FOUND''),
                  (''message'', JStr (''Tenant '' @ [CHR 0x27] @ the tenantCode @ [CHR 0x27]
                                       @ '' no encontrado o inactivo'')),
                  (''tenant_code'', JStr (the tenantCode))]))
            | Some t \<Rightarrow>
                if \<not> schemaExists reg (schema_name t) then
                  Respond (Response 500 (JObj [(''error'', JStr ''TENANT_SCHEMA_MISSING''),
                    (''message'', JStr (''Schema del tenant '' @ [CHR 0x27] @ the tenantCode
                                         @ [CHR 0x27] @ '' no existe. Contacte al administrador.'')),
                    (''tenant_code'', JStr (the tenantCode)),
                    (''schema_name'', JStr (schema_name t))]))
                else
                  Next_handler (Some \<lparr> req_tenant = t, req_tenantCode = the tenantCode,
                                        req_tenantSchema = schema_name t \<rparr>))
         else Next_handler None)"

section \<open>Example tables\<close>

text \<open>Tenant \<open>acme\<close>: one product, \<open>SKU-1\<close>, with 100 in stock at a cost of 2.00.\<close>

definition sku1 :: product where
  "sku1 = \<lparr> prod_id = 1, sku = ''SKU-1'', name = ''Widget'', cost_price = 200,
            selling_price = 350, current_stock = 100, min_stock_threshold = 10,
            max_stock_threshold = 1000, active = True \<rparr>"

definition acme_db :: schema_db where
  "acme_db = \<lparr> products = [sku1], inventory_movements = [], insights = [] \<rparr>"

text \<open>
  A request body for product 1 with the quantity as a number, and the same with the
  quantity as a string.
\<close>

definition move :: "string \<Rightarrow> int \<Rightarrow> request_movementData" where
  "move ty q = \<lparr> product_id = 1, movement_type = ty, quantity = Num q, cost_per_unit = None,
                 reference_type = ''venta'', reference_id = None, notes_txt = None \<rparr>"

definition move_text :: "string \<Rightarrow> int \<Rightarrow> request_movementData" where
  "move_text ty q = \<lparr> product_id = 1, movement_type = ty, quantity = NumStr q,
                      cost_per_unit = None, reference_type = ''ajuste'', reference_id = None,
                      notes_txt = None \<rparr>"

text \<open>What claim C1 says of one product, as a predicate on the tables.\<close>

definition ledger_inv :: "nat \<Rightarrow> int \<Rightarrow> schema_db \<Rightarrow> bool" where
  "ledger_inv pid s0 db =
     (let ms = movements_of db pid in
        stock_of db pid = Some (s0 + sum_list (map quantity ms)) \<and>
        (ms \<noteq> [] \<longrightarrow> stock_of db pid = Some (new_stock (last ms))) \<and>
        (\<forall>m \<in> set ms. new_stock m = previous_stock m + quantity m))"

text \<open>
  A request whose quantity reaches the sum as a number: the body carries a number, or
  the kind is one that takes \<open>Math.abs\<close> of it.
\<close>

definition numeric_request :: "request_movementData \<Rightarrow> bool" where
  "numeric_request r =
     ((case quantity r of Num n \<Rightarrow> True | NumStr n \<Rightarrow> False) \<or>
      movement_type r = ''entrada'' \<or> movement_type r = ''salida'')"

text \<open>
  For the bulk sync: the entries of a list agree when two entries for one product carry
  one \<open>external_stock\<close>; the tables are settled for a list when every entry finds
  its product missing (under an \<open>id\<close> the column can hold) or already at the entry's
  \<open>external_stock\<close>.
\<close>

definition agreeing :: "syncItem list \<Rightarrow> bool" where
  "agreeing xs =
     list_all (\<lambda>a. list_all (\<lambda>b. item_product_id a \<noteq> item_product_id b \<or>
                                  external_stock a = external_stock b) xs) xs"

definition settled :: "schema_db \<Rightarrow> syncItem list \<Rightarrow> bool" where
  "settled db xs =
     list_all (\<lambda>a. (stock_of db (item_product_id a) = None \<and>
                    in_integer (int (item_product_id a))) \<or>
                   stock_of db (item_product_id a) = Some (external_stock a)) xs"

definition entry :: "nat \<Rightarrow> int \<Rightarrow> syncItem" where
  "entry pid e = \<lparr> item_product_id = pid, external_stock = e, item_cost_price = None,
                   item_notes = None \<rparr>"

text \<open>A purchase of product 1, and the tables of \<open>acme\<close> with the product created at stock 0.\<close>

definition purchase :: "int \<Rightarrow> int \<Rightarrow> request_movementData" where
  "purchase q c = \<lparr> product_id = 1, movement_type = ''entrada'', quantity = Num q,
                    cost_per_unit = Some c, reference_type = ''compra'', reference_id = None,
                    notes_txt = None \<rparr>"

definition unstocked_db :: schema_db where
  "unstocked_db = \<lparr> products = [sku1\<lparr>current_stock := 0\<rparr>], inventory_movements = [],
                     insights = [] \<rparr>"

text \<open>A second product, with 7 in stock, beside the first.\<close>

definition sku2 :: product where
  "sku2 = \<lparr> prod_id = 2, sku = ''SKU-2'', name = ''Gadget'', cost_price = 500,
            selling_price = 900, current_stock = 7, min_stock_threshold = 5,
            max_stock_threshold = 100, active = True \<rparr>"

definition pair_db :: schema_db where
  "pair_db = \<lparr> products = [sku1, sku2], inventory_movements = [], insights = [] \<rparr>"

text \<open>
  For the insight engine: the row that \<open>create\<close> inserts, and the rows of a table
  equivalent to advisory \<open>i\<close> (same natural key), active at time \<open>t\<close> and created
  less than \<open>window\<close> before \<open>t\<close>.
\<close>

definition insight_row :: "sample \<Rightarrow> insightData \<Rightarrow> insight" where
  "insight_row smp d =
     \<lparr> triggered_by = triggered_by d, insight_type = insight_type d, priority = priority d,
       title = title d, description = description d, recommendation = recommendation d,
       business_impact = business_impact d, confidence = confidence d, channels = channels d,
       data = data d, expires_at = expires_at d,
       insight_id = new_insight_id (insight_type d) smp, status = ''generated'',
       created_at = now smp \<rparr>"

definition active_equivalents :: "nat \<Rightarrow> nat \<Rightarrow> insight \<Rightarrow> insight list \<Rightarrow> insight list" where
  "active_equivalents t window i xs =
     filter (\<lambda>j. natural_key j = natural_key i \<and> is_active t j \<and> t - created_at j < window) xs"

text \<open>The samples of a run at time \<open>t\<close> that draws \<open>r\<close> followed by 1, 2 and 3.\<close>

definition samples_at :: "nat \<Rightarrow> string \<Rightarrow> sample \<times> sample \<times> sample" where
  "samples_at t r = (\<lparr> now = t, rnd = r @ ''1'' \<rparr>, \<lparr> now = t, rnd = r @ ''2'' \<rparr>,
                     \<lparr> now = t, rnd = r @ ''3'' \<rparr>)"

text \<open>
  A registry with the active tenant \<open>abc123\<close>, and a request for \<open>/api/products\<close>
  that names the tenant in its query only.
\<close>

definition abc123 :: tenant where
  "abc123 = \<lparr> tenant_code = ''abc123'', company_name = ''ABC'', plan = ''basic'',
               tenant_active = True \<rparr>"

definition demo_registry :: registry where
  "demo_registry = \<lparr> tenants = [abc123], schemata = [''tenant_abc123''] \<rparr>"

definition query_request :: "string \<Rightarrow> request" where
  "query_request host = \<lparr> x_tenant = None, hostname = Some host, params_tenantCode = None,
                           path = ''/api/products'', query_tenant = Some ''abc123'' \<rparr>"

text \<open>Two runs of the inventory rules, a minute apart, on a product that is out of stock.\<close>

definition stockout_twice :: "engine \<Rightarrow> schema_db" where
  "stockout_twice e =
     snd (generateInventoryInsights ''tenant_acme'' e
            (snd (generateInventoryInsights ''tenant_acme'' e unstocked_db
                    (samples_at 1000000 ''k9x'')))
            (samples_at 1060000 ''p4q''))"

section \<open>The ledger and the stock column agree\<close>

lemma filter_set_stock:
  "filter (\<lambda>p. prod_id p = pid) (set_stock pid' v ps) =
     (if pid = pid' then map (\<lambda>p. p\<lparr>current_stock := v\<rparr>) (filter (\<lambda>p. prod_id p = pid) ps)
      else filter (\<lambda>p. prod_id p = pid) ps)"
  by (induction ps) (auto simp: set_stock_def)

lemma stock_of_set_stock:
  "stock_of (db\<lparr>inventory_movements := ms, products := set_stock pid' v (products db)\<rparr>) pid =
     (if pid = pid' then map_option (\<lambda>_. v) (stock_of db pid) else stock_of db pid)"
  by (simp add: stock_of_def filter_set_stock split: list.splits)

text \<open>The row the \<open>INSERT\<close> stores when stock change and new stock are numbers.\<close>

lemma insert_movement_numbers:
  "insert_movement pid ty (Number c) s (Number ns) cost rt ri n =
     (if \<not> in_integer c then Inl (out_of_range (show_int c))
      else if \<not> in_integer ns then Inl (out_of_range (show_int ns))
      else if rt \<notin> set reference_type_enum then
        Inl (''invalid input value for enum reference_type_enum: '' @ [CHR 0x22] @ rt @ [CHR 0x22])
      else if \<not> reference_id_fits ri then Inl (out_of_range (show_nat (the ri)))
      else if \<not> cost_fits cost then Inl ''numeric field overflow''
      else Inr \<lparr> product_id = pid, movement_type = ty, quantity = c, cost_per_unit = cost,
                 reference_type = rt, reference_id = ri, notes_txt = n, previous_stock = s,
                 new_stock = ns \<rparr>)"
  by (simp add: insert_movement_def integer_param_def)

lemma js_plus_Number: "js_plus c (Number n) = Number (c + n)"
  by (simp add: js_plus_def)

lemma stockChange_of_numeric:
  assumes "numeric_request r"
    and "stockChange_of (movement_type r) (quantity r) s = Inr v"
  shows "\<exists>c. v = Number c"
  using assms
  by (auto simp: numeric_request_def stockChange_of_def quantity_value_def
           split: js_quantity.splits if_splits)

text \<open>
  A call whose quantity is numeric either changes nothing or appends one row and sets
  the stock to match it.
\<close>

lemma addMovement_effect:
  assumes "numeric_request r"
  shows "snd (addMovement ts db r) = db \<or>
   (\<exists>s c. stock_of db (product_id r) = Some s \<and>
      snd (addMovement ts db r) =
        db\<lparr>inventory_movements := inventory_movements db @
              [\<lparr> product_id = product_id r, movement_type = movement_type r, quantity = c,
                 cost_per_unit = cost_per_unit r, reference_type = reference_type r,
                 reference_id = reference_id r, notes_txt = notes_txt r,
                 previous_stock = s, new_stock = s + c \<rparr>],
            products := set_stock (product_id r) (s + c) (products db)\<rparr>)"
proof (cases "filter (\<lambda>p. prod_id p = product_id r) (products db)")
  case Nil
  then show ?thesis by (simp add: addMovement_def)
next
  case (Cons row rest)
  then have s: "stock_of db (product_id r) = Some (current_stock row)"
    by (simp add: stock_of_def)
  show ?thesis
  proof (cases "stockChange_of (movement_type r) (quantity r) (current_stock row)")
    case (Inl msg)
    with Cons show ?thesis by (simp add: addMovement_def)
  next
    case (Inr v)
    from stockChange_of_numeric [OF assms Inr] obtain c where v: "v = Number c" by blast
    with Cons Inr s show ?thesis
      by (auto simp: addMovement_def Let_def js_plus_Number insert_movement_numbers)
  qed
qed

lemma ledger_inv_step:
  assumes "ledger_inv pid s0 db" and "numeric_request r"
  shows "ledger_inv pid s0 (snd (addMovement ts db r))"
proof -
  from addMovement_effect [OF assms(2), of ts db] show ?thesis
  proof
    assume "snd (addMovement ts db r) = db"
    with assms show ?thesis by simp
  next
    assume "\<exists>s c. stock_of db (product_id r) = Some s \<and>
      snd (addMovement ts db r) =
        db\<lparr>inventory_movements := inventory_movements db @
              [\<lparr> product_id = product_id r, movement_type = movement_type r, quantity = c,
                 cost_per_unit = cost_per_unit r, reference_type = reference_type r,
                 reference_id = reference_id r, notes_txt = notes_txt r,
                 previous_stock = s, new_stock = s + c \<rparr>],
            products := set_stock (product_id r) (s + c) (products db)\<rparr>"
    then obtain s c where s: "stock_of db (product_id r) = Some s"
      and eq: "snd (addMovement ts db r) =
        db\<lparr>inventory_movements := inventory_movements db @
              [\<lparr> product_id = product_id r, movement_type = movement_type r, quantity = c,
                 cost_per_unit = cost_per_unit r, reference_type = reference_type r,
                 reference_id = reference_id r, notes_txt = notes_txt r,
                 previous_stock = s, new_stock = s + c \<rparr>],
            products := set_stock (product_id r) (s + c) (products db)\<rparr>" by blast
    show ?thesis
    proof (cases "product_id r = pid")
      case True
      with assms(1) s show ?thesis
        unfolding eq ledger_inv_def Let_def
        by (auto simp: stock_of_set_stock movements_of_def)
    next
      case False
      with assms(1) show ?thesis
        unfolding eq ledger_inv_def Let_def
        by (auto simp: stock_of_set_stock movements_of_def)
    qed
  qed
qed

text \<open>
  Over calls whose quantities are numeric, the stock of a product is its stock at
  creation plus the quantities of its movements, it is the \<open>new_stock\<close> of the latest
  one, and every movement has \<open>new_stock = previous_stock + quantity\<close>.
\<close>

lemma ledger_inv_record_all:
  "ledger_inv pid s0 db \<Longrightarrow> list_all numeric_request reqs \<Longrightarrow>
     ledger_inv pid s0 (record_all ts db reqs)"
  unfolding record_all_def
  by (induction reqs arbitrary: db) (auto intro: ledger_inv_step)

lemma show_100: "show_int 100 = ''100''" "show_int 5 = ''5''"
  by (simp_all add: show_int_def show_nat.simps digit_char_def)

lemma text_params:
  "integer_param (Text ''5'') = Inr 5" "integer_param (Text ''1005'') = Inr 1005"
  by (simp_all add: integer_param_def numeral_value_def digit_of_def in_integer_def)

lemma ajuste_text_insert:
  "insert_movement pid ''ajuste'' (Text ''5'') 100 (Text ''1005'') None ''ajuste'' None None =
     Inr \<lparr> product_id = pid, movement_type = ''ajuste'', quantity = 5, cost_per_unit = None,
           reference_type = ''ajuste'', reference_id = None, notes_txt = None,
           previous_stock = 100, new_stock = 1005 \<rparr>"
  by (simp add: insert_movement_def text_params reference_type_enum_def reference_id_fits_def
        cost_fits_def)

lemma ajuste_text_change:
  "stockChange_of ''ajuste'' (NumStr 5) 100 = Inr (Text ''5'')"
  "js_plus 100 (Text ''5'') = Text ''1005''"
  by (simp_all add: stockChange_of_def quantity_value_def less_zero_def to_number_def
        js_plus_def show_100 numeral_value_def digit_of_def)

lemma entrada_text_change:
  "stockChange_of ''entrada'' (NumStr 5) 100 = Inr (Number 5)"
  by (simp add: stockChange_of_def abs_quantity_def)

text \<open>
  Claim C1 at a failing input. Product 1 has 100 in stock and \<open>POST /movements\<close>
  passes on a body whose \<open>quantity\<close> is the string \<open>"5"\<close>. For an \<open>ajuste\<close> the sum
  \<open>currentStock + stockChange\<close> is the string \<open>"1005"\<close>: the call succeeds, the
  movement is stored with quantity 5, \<open>previous_stock\<close> 100 and \<open>new_stock\<close> 1005,
  and the stock of the product becomes 1005, which is neither \<open>previous_stock +
  quantity\<close> nor the stock at creation plus the quantities recorded. For an
  \<open>entrada\<close> the same body is taken through \<open>Math.abs\<close> and the row is consistent.
\<close>

theorem addMovement_text_quantity_concatenated:
  "addMovement ''tenant_acme'' acme_db (move_text ''ajuste'' 5) =
     (Inr \<lparr> product_id = 1, movement_type = ''ajuste'', quantity = 5, cost_per_unit = None,
            reference_type = ''ajuste'', reference_id = None, notes_txt = None,
            previous_stock = 100, new_stock = 1005 \<rparr>,
      \<lparr> products = [sku1\<lparr>current_stock := 1005\<rparr>],
        inventory_movements =
          [\<lparr> product_id = 1, movement_type = ''ajuste'', quantity = 5, cost_per_unit = None,
             reference_type = ''ajuste'', reference_id = None, notes_txt = None,
             previous_stock = 100, new_stock = 1005 \<rparr>],
        insights = [] \<rparr>) \<and>
   (1005 :: int) \<noteq> 100 + 5 \<and>
   fst (addMovement ''tenant_acme'' acme_db (move_text ''entrada'' 5)) =
     Inr \<lparr> product_id = 1, movement_type = ''entrada'', quantity = 5, cost_per_unit = None,
           reference_type = ''ajuste'', reference_id = None, notes_txt = None,
           previous_stock = 100, new_stock = 105 \<rparr>"
  by (simp add: addMovement_def acme_db_def sku1_def move_text_def ajuste_text_change
        ajuste_text_insert entrada_text_change js_plus_Number insert_movement_numbers in_integer_def
        reference_type_enum_def reference_id_fits_def cost_fits_def set_stock_def Let_def)

section \<open>An outbound movement larger than the stock\<close>

lemma insufficient_message_code:
  "post_movements_error (movement_error ''No hay suficiente stock para realizar esta salida'') =
     (400, ''INSUFFICIENT_STOCK'')"
  by (simp add: post_movements_error_def movement_error_def)

lemma salida_rejected:
  "abs_quantity qty > s \<Longrightarrow>
     stockChange_of ''salida'' qty s = Inl ''No hay suficiente stock para realizar esta salida''"
  by (simp add: stockChange_of_def js_plus_Number less_zero_def to_number_def)

text \<open>
  Claim C2. For a product with current stock \<open>s\<close> and an outbound (\<open>salida\<close>) quantity
  \<open>q > s\<close>, given as a number or as its numeral, \<open>addMovement\<close> is rejected with the
  insufficient-stock error, the route answers that error with status 400 and code
  \<open>INSUFFICIENT_STOCK\<close>, and the tables (stock and ledger) are as before the call.
\<close>

theorem addMovement_salida_insufficient:
  assumes "tenantSchema \<noteq> []" and "stock_of db pid = Some s" and "q > s"
  shows "addMovement tenantSchema db
           \<lparr> product_id = pid, movement_type = ''salida'', quantity = Num q, cost_per_unit = c,
             reference_type = rt, reference_id = ri, notes_txt = n \<rparr> =
           (Inl (movement_error ''No hay suficiente stock para realizar esta salida''), db) \<and>
         addMovement tenantSchema db
           \<lparr> product_id = pid, movement_type = ''salida'', quantity = NumStr q, cost_per_unit = c,
             reference_type = rt, reference_id = ri, notes_txt = n \<rparr> =
           (Inl (movement_error ''No hay suficiente stock para realizar esta salida''), db) \<and>
         post_movements_error
           (movement_error ''No hay suficiente stock para realizar esta salida'') =
           (400, ''INSUFFICIENT_STOCK'')"
proof -
  from assms(2) obtain row rest where
    rows: "filter (\<lambda>p. prod_id p = pid) (products db) = row # rest" and "current_stock row = s"
    by (auto simp: stock_of_def split: list.splits)
  with assms(3) have "abs_quantity (Num q) > current_stock row"
    and "abs_quantity (NumStr q) > current_stock row"
    by (simp_all add: abs_quantity_def)
  then have "stockChange_of ''salida'' (Num q) (current_stock row) =
      Inl ''No hay suficiente stock para realizar esta salida''"
    and "stockChange_of ''salida'' (NumStr q) (current_stock row) =
      Inl ''No hay suficiente stock para realizar esta salida''"
    by (simp_all add: salida_rejected)
  with rows assms(1) show ?thesis
    by (simp add: addMovement_def insufficient_message_code)
qed

theorem addMovement_salida_insufficient_witness:
  "''tenant_acme'' \<noteq> [] \<and> stock_of acme_db 1 = Some 100 \<and> (101::int) > 100 \<and>
   addMovement ''tenant_acme'' acme_db (move ''salida'' 101) =
     (Inl (movement_error ''No hay suficiente stock para realizar esta salida''), acme_db)"
proof -
  have h1: "''tenant_acme'' \<noteq> []" by simp
  have h2: "stock_of acme_db 1 = Some 100"
    by (simp add: stock_of_def acme_db_def sku1_def)
  have h3: "(101::int) > 100" by simp
  from h1 h2 addMovement_salida_insufficient [OF h1 h2 h3, of None "''venta''" None None]
  show ?thesis by (simp add: move_def)
qed

section \<open>External-sync movements\<close>

text \<open>
  Claim C4, as the spec has it, fails: a \<open>sincronizacion\<close> movement of \<open>-130\<close> on a
  stock of 100 is accepted and leaves the product at \<open>-30\<close>; nothing clamps the stock
  at zero, and nothing but the movement is recorded.
\<close>

theorem sincronizacion_clamp_counterexample:
  "stock_of (snd (addMovement ''tenant_acme'' acme_db (move ''sincronizacion'' (- 130)))) 1 =
     Some (- 30) \<and> (- 30 :: int) < 0"
  by (simp add: addMovement_def acme_db_def sku1_def move_def stockChange_of_def
        quantity_value_def js_plus_Number insert_movement_numbers in_integer_def
        reference_type_enum_def reference_id_fits_def cost_fits_def set_stock_def
        stock_of_def Let_def)

lemma sync_loop_snoc: "sync_loop db (xs @ [x]) = sync_item (sync_loop db xs) x"
  by (simp add: sync_loop_def)

text \<open>A turn of the loop for a product in stock at another level, all values in range.\<close>

lemma sync_item_applied:
  assumes "\<not> aborted st" and "stock_of (working st) (item_product_id x) = Some s"
    and "external_stock x \<noteq> s" and "in_integer (external_stock x)"
    and "in_integer (external_stock x - s)" and "cost_fits (item_cost_price x)"
  shows "sync_item st x =
     st\<lparr> working := (working st)\<lparr>
            inventory_movements := inventory_movements (working st) @
              [\<lparr> product_id = item_product_id x, movement_type = ''sincronizacion'',
                 quantity = external_stock x - s, cost_per_unit = item_cost_price x,
                 reference_type = ''sync'', reference_id = None,
                 notes_txt = Some ((case item_notes x of
                                      None \<Rightarrow> ''Sincronizaci'' @ [CHR 0xC3, CHR 0xB3] @ ''n externa''
                                    | Some n \<Rightarrow> n)
                                   @ '' - Diferencia: '' @ show_int (external_stock x - s)),
                 previous_stock = s, new_stock = external_stock x \<rparr>],
            products := set_stock (item_product_id x) (external_stock x)
                          (products (working st)) \<rparr>,
         results := (results st)\<lparr> processed := processed (results st) + 1,
                       updated := updated (results st) + 1,
                       movements_created := movements_created (results st) + 1 \<rparr> \<rparr>"
proof -
  from assms(2) obtain row rest where
    rows: "filter (\<lambda>p. prod_id p = item_product_id x) (products (working st)) = row # rest"
    and row: "current_stock row = s"
    by (auto simp: stock_of_def split: list.splits)
  with assms(1,3-6) show ?thesis
    by (simp add: sync_item_def Let_def insert_movement_numbers reference_type_enum_def
          reference_id_fits_def)
qed

text \<open>
  Claim C4, amended. A \<open>sincronizacion\<close> movement on an existing product with stock
  \<open>s\<close>, its quantity a number \<open>q\<close>, with \<open>q\<close> and \<open>s + q\<close> in the range of the
  \<open>INTEGER\<close> columns and the other fields such as the \<open>INSERT\<close> accepts, is applied as
  given with no negativity check: the call succeeds, appends to the ledger the one
  movement with quantity \<open>q\<close>, \<open>previous_stock = s\<close> and \<open>new_stock = s + q\<close>, and sets
  the product's stock to \<open>s + q\<close>, negative or not; nothing else is written. In a
  bulk sync, after any entries \<open>xs\<close> that left the transaction standing, an entry for
  an existing product with stock \<open>s\<close> that carries another \<open>external_stock = e\<close>, with
  \<open>e\<close> and \<open>e - s\<close> in range, appends to the ledger the one movement with quantity
  \<open>e - s\<close>, \<open>previous_stock = s\<close> and \<open>new_stock = e\<close>, sets the stock to \<open>e\<close>,
  negative or not, counts the entry as processed and updated, and adds nothing to the
  report's \<open>errors\<close>.
\<close>

theorem sincronizacion_applied_as_given:
  assumes "tenantSchema \<noteq> []"
  shows "(stock_of db pid = Some s \<and> in_integer q \<and> in_integer (s + q) \<and>
          rt \<in> set reference_type_enum \<and> reference_id_fits ri \<and> cost_fits c \<longrightarrow>
            addMovement tenantSchema db
              \<lparr> product_id = pid, movement_type = ''sincronizacion'', quantity = Num q,
                cost_per_unit = c, reference_type = rt, reference_id = ri, notes_txt = n \<rparr> =
            (Inr \<lparr> product_id = pid, movement_type = ''sincronizacion'', quantity = q,
                   cost_per_unit = c, reference_type = rt, reference_id = ri, notes_txt = n,
                   previous_stock = s, new_stock = s + q \<rparr>,
             db\<lparr> inventory_movements := inventory_movements db @
                   [\<lparr> product_id = pid, movement_type = ''sincronizacion'', quantity = q,
                      cost_per_unit = c, reference_type = rt, reference_id = ri, notes_txt = n,
                      previous_stock = s, new_stock = s + q \<rparr>],
                 products := set_stock pid (s + q) (products db) \<rparr>) \<and>
            stock_of (db\<lparr> inventory_movements := inventory_movements db @
                   [\<lparr> product_id = pid, movement_type = ''sincronizacion'', quantity = q,
                      cost_per_unit = c, reference_type = rt, reference_id = ri, notes_txt = n,
                      previous_stock = s, new_stock = s + q \<rparr>],
                 products := set_stock pid (s + q) (products db) \<rparr>) pid = Some (s + q)) \<and>
         (\<not> aborted (sync_loop db xs) \<and>
          stock_of (working (sync_loop db xs)) (item_product_id x) = Some s' \<and>
          external_stock x \<noteq> s' \<and> in_integer (external_stock x) \<and>
          in_integer (external_stock x - s') \<and> cost_fits (item_cost_price x) \<longrightarrow>
            syncInventory tenantSchema db (xs @ [x]) =
              (Inr ((results (sync_loop db xs))\<lparr>
                      processed := processed (results (sync_loop db xs)) + 1,
                      updated := updated (results (sync_loop db xs)) + 1,
                      movements_created := movements_created (results (sync_loop db xs)) + 1 \<rparr>),
               (working (sync_loop db xs))\<lparr>
                 inventory_movements := inventory_movements (working (sync_loop db xs)) @
                   [\<lparr> product_id = item_product_id x, movement_type = ''sincronizacion'',
                      quantity = external_stock x - s', cost_per_unit = item_cost_price x,
                      reference_type = ''sync'', reference_id = None,
                      notes_txt = Some ((case item_notes x of
                                           None \<Rightarrow> ''Sincronizaci'' @ [CHR 0xC3, CHR 0xB3]
                                                     @ ''n externa''
                                         | Some n \<Rightarrow> n)
                                        @ '' - Diferencia: '' @ show_int (external_stock x - s')),
                      previous_stock = s', new_stock = external_stock x \<rparr>],
                 products := set_stock (item_product_id x) (external_stock x)
                               (products (working (sync_loop db xs))) \<rparr>) \<and>
            stock_of (snd (syncInventory tenantSchema db (xs @ [x]))) (item_product_id x) =
              Some (external_stock x))"
proof (intro conjI impI)
  assume a: "stock_of db pid = Some s \<and> in_integer q \<and> in_integer (s + q) \<and>
          rt \<in> set reference_type_enum \<and> reference_id_fits ri \<and> cost_fits c"
  then obtain row rest where
    rows: "filter (\<lambda>p. prod_id p = pid) (products db) = row # rest" and row: "current_stock row = s"
    by (auto simp: stock_of_def split: list.splits)
  have ch: "stockChange_of ''sincronizacion'' (Num q) s = Inr (Number q)"
    by (simp add: stockChange_of_def quantity_value_def)
  let ?m = "\<lparr> product_id = pid, movement_type = ''sincronizacion'', quantity = q,
              cost_per_unit = c, reference_type = rt, reference_id = ri, notes_txt = n,
              previous_stock = s, new_stock = s + q \<rparr>"
  from a have ins: "insert_movement pid ''sincronizacion'' (Number q) s (Number (s + q)) c rt ri n =
      Inr ?m"
    by (simp add: insert_movement_numbers)
  from assms rows row ch ins
  show "addMovement tenantSchema db
              \<lparr> product_id = pid, movement_type = ''sincronizacion'', quantity = Num q,
                cost_per_unit = c, reference_type = rt, reference_id = ri, notes_txt = n \<rparr> =
            (Inr ?m, db\<lparr> inventory_movements := inventory_movements db @ [?m],
                 products := set_stock pid (s + q) (products db) \<rparr>)"
    by (simp add: addMovement_def Let_def js_plus_Number)
  from a show "stock_of (db\<lparr> inventory_movements := inventory_movements db @ [?m],
                 products := set_stock pid (s + q) (products db) \<rparr>) pid = Some (s + q)"
    by (simp add: stock_of_set_stock)
next
  assume b: "\<not> aborted (sync_loop db xs) \<and>
          stock_of (working (sync_loop db xs)) (item_product_id x) = Some s' \<and>
          external_stock x \<noteq> s' \<and> in_integer (external_stock x) \<and>
          in_integer (external_stock x - s') \<and> cost_fits (item_cost_price x)"
  then have step: "sync_item (sync_loop db xs) x = (sync_loop db xs)\<lparr>
      working := (working (sync_loop db xs))\<lparr>
            inventory_movements := inventory_movements (working (sync_loop db xs)) @
              [\<lparr> product_id = item_product_id x, movement_type = ''sincronizacion'',
                 quantity = external_stock x - s', cost_per_unit = item_cost_price x,
                 reference_type = ''sync'', reference_id = None,
                 notes_txt = Some ((case item_notes x of
                                      None \<Rightarrow> ''Sincronizaci'' @ [CHR 0xC3, CHR 0xB3] @ ''n externa''
                                    | Some n \<Rightarrow> n)
                                   @ '' - Diferencia: '' @ show_int (external_stock x - s')),
                 previous_stock = s', new_stock = external_stock x \<rparr>],
            products := set_stock (item_product_id x) (external_stock x)
                          (products (working (sync_loop db xs))) \<rparr>,
      results := (results (sync_loop db xs))\<lparr>
                      processed := processed (results (sync_loop db xs)) + 1,
                      updated := updated (results (sync_loop db xs)) + 1,
                      movements_created := movements_created (results (sync_loop db xs)) + 1 \<rparr> \<rparr>"
    by (intro sync_item_applied) simp_all
  from assms b show run: "syncInventory tenantSchema db (xs @ [x]) =
              (Inr ((results (sync_loop db xs))\<lparr>
                      processed := processed (results (sync_loop db xs)) + 1,
                      updated := updated (results (sync_loop db xs)) + 1,
                      movements_created := movements_created (results (sync_loop db xs)) + 1 \<rparr>),
               (working (sync_loop db xs))\<lparr>
                 inventory_movements := inventory_movements (working (sync_loop db xs)) @
                   [\<lparr> product_id = item_product_id x, movement_type = ''sincronizacion'',
                      quantity = external_stock x - s', cost_per_unit = item_cost_price x,
                      reference_type = ''sync'', reference_id = None,
                      notes_txt = Some ((case item_notes x of
                                           None \<Rightarrow> ''Sincronizaci'' @ [CHR 0xC3, CHR 0xB3]
                                                     @ ''n externa''
                                         | Some n \<Rightarrow> n)
                                        @ '' - Diferencia: '' @ show_int (external_stock x - s')),
                      previous_stock = s', new_stock = external_stock x \<rparr>],
                 products := set_stock (item_product_id x) (external_stock x)
                               (products (working (sync_loop db xs))) \<rparr>)"
    unfolding syncInventory_def Let_def sync_loop_snoc step by simp
  from b show "stock_of (snd (syncInventory tenantSchema db (xs @ [x]))) (item_product_id x) =
              Some (external_stock x)"
    unfolding run by (simp add: stock_of_set_stock)
qed

lemma acme_stock: "stock_of acme_db 1 = Some 100"
  by (simp add: stock_of_def acme_db_def sku1_def)

lemma acme_missing_9:
  "sync_loop acme_db [entry 9 3] =
     \<lparr> working = acme_db,
       results = \<lparr> processed = 0, updated = 0,
                   errors = [''Producto con ID '' @ show_nat 9 @ '' no encontrado''],
                   movements_created = 0 \<rparr>,
       aborted = False \<rparr>"
  by (simp add: sync_loop_def sync_item_def entry_def acme_db_def sku1_def in_integer_def
        push_error_def Let_def)

theorem sincronizacion_applied_as_given_witness:
  "''tenant_acme'' \<noteq> [] \<and> stock_of acme_db 1 = Some 100 \<and> in_integer (- 130) \<and>
   in_integer (100 + (- 130)) \<and> ''venta'' \<in> set reference_type_enum \<and> reference_id_fits None \<and>
   cost_fits None \<and>
   addMovement ''tenant_acme'' acme_db (move ''sincronizacion'' (- 130)) =
     (Inr \<lparr> product_id = 1, movement_type = ''sincronizacion'', quantity = - 130,
            cost_per_unit = None, reference_type = ''venta'', reference_id = None,
            notes_txt = None, previous_stock = 100, new_stock = 100 + (- 130) \<rparr>,
      acme_db\<lparr> inventory_movements := inventory_movements acme_db @
            [\<lparr> product_id = 1, movement_type = ''sincronizacion'', quantity = - 130,
               cost_per_unit = None, reference_type = ''venta'', reference_id = None,
               notes_txt = None, previous_stock = 100, new_stock = 100 + (- 130) \<rparr>],
          products := set_stock 1 (100 + (- 130)) (products acme_db) \<rparr>) \<and>
   \<not> aborted (sync_loop acme_db [entry 9 3]) \<and>
   stock_of (working (sync_loop acme_db [entry 9 3])) (item_product_id (entry 1 (- 4))) =
     Some 100 \<and>
   external_stock (entry 1 (- 4)) \<noteq> 100 \<and> in_integer (external_stock (entry 1 (- 4))) \<and>
   in_integer (external_stock (entry 1 (- 4)) - 100) \<and>
   cost_fits (item_cost_price (entry 1 (- 4))) \<and>
   stock_of (snd (syncInventory ''tenant_acme'' acme_db [entry 9 3, entry 1 (- 4)])) 1 =
     Some (- 4)"
proof -
  have h1: "''tenant_acme'' \<noteq> []" by simp
  have h2: "stock_of acme_db 1 = Some 100 \<and> in_integer (- 130) \<and> in_integer (100 + (- 130)) \<and>
      ''venta'' \<in> set reference_type_enum \<and> reference_id_fits None \<and> cost_fits None"
    using acme_stock
    by (simp add: in_integer_def reference_type_enum_def reference_id_fits_def cost_fits_def)
  have h3: "\<not> aborted (sync_loop acme_db [entry 9 3]) \<and>
      stock_of (working (sync_loop acme_db [entry 9 3])) (item_product_id (entry 1 (- 4))) =
        Some 100 \<and>
      external_stock (entry 1 (- 4)) \<noteq> 100 \<and> in_integer (external_stock (entry 1 (- 4))) \<and>
      in_integer (external_stock (entry 1 (- 4)) - 100) \<and>
      cost_fits (item_cost_price (entry 1 (- 4)))"
    using acme_stock acme_missing_9 by (simp add: entry_def in_integer_def cost_fits_def)
  from h2 h3
    sincronizacion_applied_as_given [OF h1, where db = acme_db and pid = 1 and s = 100
      and q = "- 130" and rt = "''venta''" and ri = None and c = None and n = None
      and xs = "[entry 9 3]" and x = "entry 1 (- 4)" and s' = 100]
  have r1: "addMovement ''tenant_acme'' acme_db
       \<lparr> product_id = 1, movement_type = ''sincronizacion'', quantity = Num (- 130),
         cost_per_unit = None, reference_type = ''venta'', reference_id = None,
         notes_txt = None \<rparr> =
     (Inr \<lparr> product_id = 1, movement_type = ''sincronizacion'', quantity = - 130,
            cost_per_unit = None, reference_type = ''venta'', reference_id = None,
            notes_txt = None, previous_stock = 100, new_stock = 100 + (- 130) \<rparr>,
      acme_db\<lparr> inventory_movements := inventory_movements acme_db @
            [\<lparr> product_id = 1, movement_type = ''sincronizacion'', quantity = - 130,
               cost_per_unit = None, reference_type = ''venta'', reference_id = None,
               notes_txt = None, previous_stock = 100, new_stock = 100 + (- 130) \<rparr>],
          products := set_stock 1 (100 + (- 130)) (products acme_db) \<rparr>)"
    and r2: "stock_of (snd (syncInventory ''tenant_acme'' acme_db
                              ([entry 9 3] @ [entry 1 (- 4)])))
               (item_product_id (entry 1 (- 4))) = Some (external_stock (entry 1 (- 4)))"
    by blast+
  from r2 have r3:
    "stock_of (snd (syncInventory ''tenant_acme'' acme_db [entry 9 3, entry 1 (- 4)])) 1 =
       Some (- 4)"
    by (simp add: entry_def)
  from r1 have r4: "addMovement ''tenant_acme'' acme_db (move ''sincronizacion'' (- 130)) =
     (Inr \<lparr> product_id = 1, movement_type = ''sincronizacion'', quantity = - 130,
            cost_per_unit = None, reference_type = ''venta'', reference_id = None,
            notes_txt = None, previous_stock = 100, new_stock = 100 + (- 130) \<rparr>,
      acme_db\<lparr> inventory_movements := inventory_movements acme_db @
            [\<lparr> product_id = 1, movement_type = ''sincronizacion'', quantity = - 130,
               cost_per_unit = None, reference_type = ''venta'', reference_id = None,
               notes_txt = None, previous_stock = 100, new_stock = 100 + (- 130) \<rparr>],
          products := set_stock 1 (100 + (- 130)) (products acme_db) \<rparr>)"
    by (simp add: move_def)
  from h1 h2 h3 r3 r4 show ?thesis by blast
qed

section \<open>A second bulk sync with the same entries\<close>

lemma agreeing_iff:
  "agreeing xs \<longleftrightarrow>
     (\<forall>a \<in> set xs. \<forall>b \<in> set xs. item_product_id a = item_product_id b \<longrightarrow>
        external_stock a = external_stock b)"
  unfolding agreeing_def list_all_iff by blast

lemma settled_iff:
  "settled db xs \<longleftrightarrow>
     (\<forall>a \<in> set xs. (stock_of db (item_product_id a) = None \<and>
                     in_integer (int (item_product_id a))) \<or>
                   stock_of db (item_product_id a) = Some (external_stock a))"
  unfolding settled_def list_all_iff by blast

text \<open>An aborted transaction stays aborted, and the report says so.\<close>

lemma aborted_sync_item: "aborted st \<Longrightarrow> aborted (sync_item st x)"
  by (simp add: sync_item_def Let_def)

lemma aborted_foldl: "aborted st \<Longrightarrow> aborted (foldl sync_item st xs)"
  by (induction xs arbitrary: st) (simp_all add: aborted_sync_item)

lemma aborted_has_error: "aborted (sync_item st x) \<Longrightarrow> errors (results (sync_item st x)) \<noteq> []"
  by (auto simp: sync_item_def push_error_def Let_def split: list.splits sum.splits if_splits)

lemma no_errors_not_aborted:
  "errors (results (sync_loop db xs)) = [] \<Longrightarrow> \<not> aborted (sync_loop db xs)"
proof (cases xs rule: rev_cases)
  case Nil
  then show ?thesis by (simp add: sync_loop_def)
next
  case (snoc ys y)
  assume "errors (results (sync_loop db xs)) = []"
  with snoc aborted_has_error [of "sync_loop db ys" y] show ?thesis
    by (auto simp: sync_loop_snoc)
qed

text \<open>What a turn that leaves the transaction standing does to the stock of a product.\<close>

lemma stock_of_sync_item:
  assumes "\<not> aborted (sync_item st item)"
  shows "stock_of (working (sync_item st item)) p =
     (if p = item_product_id item \<and> stock_of (working st) p \<noteq> None
      then Some (external_stock item) else stock_of (working st) p)"
  using assms
  by (auto simp: sync_item_def stock_of_def Let_def filter_set_stock
           split: list.splits sum.splits if_splits)

lemma missing_in_range:
  assumes "\<not> aborted (sync_item st item)"
    and "stock_of (working st) (item_product_id item) = None"
  shows "in_integer (int (item_product_id item))"
  using assms
  by (auto simp: sync_item_def stock_of_def Let_def split: list.splits if_splits)

lemma sync_item_settled:
  assumes "\<not> aborted st"
    and "(stock_of (working st) (item_product_id item) = None \<and>
          in_integer (int (item_product_id item))) \<or>
         stock_of (working st) (item_product_id item) = Some (external_stock item)"
  shows "working (sync_item st item) = working st \<and>
         updated (results (sync_item st item)) = updated (results st) \<and>
         movements_created (results (sync_item st item)) = movements_created (results st) \<and>
         \<not> aborted (sync_item st item)"
  using assms
  by (auto simp: sync_item_def stock_of_def push_error_def Let_def split: list.splits)

text \<open>On settled tables a run writes nothing and its transaction commits.\<close>

lemma foldl_sync_settled:
  "settled (working st) xs \<Longrightarrow> \<not> aborted st \<Longrightarrow>
     working (foldl sync_item st xs) = working st \<and>
     updated (results (foldl sync_item st xs)) = updated (results st) \<and>
     movements_created (results (foldl sync_item st xs)) = movements_created (results st) \<and>
     \<not> aborted (foldl sync_item st xs)"
proof (induction xs arbitrary: st)
  case Nil
  then show ?case by simp
next
  case (Cons x xs)
  from Cons.prems have x: "(stock_of (working st) (item_product_id x) = None \<and>
          in_integer (int (item_product_id x))) \<or>
         stock_of (working st) (item_product_id x) = Some (external_stock x)"
    and rest: "settled (working st) xs"
    by (simp_all add: settled_def)
  from sync_item_settled [OF Cons.prems(2) x]
  have same: "working (sync_item st x) = working st"
    and u: "updated (results (sync_item st x)) = updated (results st)"
    and m: "movements_created (results (sync_item st x)) = movements_created (results st)"
    and na: "\<not> aborted (sync_item st x)"
    by simp_all
  from rest same have "settled (working (sync_item st x)) xs" by simp
  from Cons.IH [OF this na] same u m show ?case by simp
qed

lemma agreeing_butlast: "agreeing (xs @ [x]) \<Longrightarrow> agreeing xs"
proof -
  assume "agreeing (xs @ [x])"
  moreover have "set xs \<subseteq> set (xs @ [x])" by auto
  ultimately show ?thesis unfolding agreeing_iff by blast
qed

lemma agreeing_last:
  "agreeing (xs @ [x]) \<Longrightarrow> a \<in> set xs \<Longrightarrow> item_product_id a = item_product_id x \<Longrightarrow>
     external_stock a = external_stock x"
proof -
  assume "agreeing (xs @ [x])" "a \<in> set xs" "item_product_id a = item_product_id x"
  moreover have "x \<in> set (xs @ [x])" by simp
  moreover have "set xs \<subseteq> set (xs @ [x])" by auto
  ultimately show ?thesis unfolding agreeing_iff by blast
qed

text \<open>A run over agreeing entries that commits leaves the tables settled for them.\<close>

lemma foldl_sync_reaches_settled:
  "agreeing xs \<Longrightarrow> \<not> aborted (foldl sync_item st xs) \<Longrightarrow>
     settled (working (foldl sync_item st xs)) xs"
proof (induction xs rule: rev_induct)
  case Nil
  then show ?case by (simp add: settled_def)
next
  case (snoc x xs)
  let ?mid = "foldl sync_item st xs"
  from snoc.prems(2) have fin: "\<not> aborted (sync_item ?mid x)" by simp
  with aborted_sync_item [of ?mid x] have mid: "\<not> aborted ?mid" by blast
  from snoc.prems(1) have ag: "agreeing xs"
    by (rule agreeing_butlast)
  from snoc.IH [OF ag mid] have ih: "(stock_of (working ?mid) (item_product_id a) = None \<and>
         in_integer (int (item_product_id a))) \<or>
       stock_of (working ?mid) (item_product_id a) = Some (external_stock a)" if "a \<in> set xs" for a
    using that unfolding settled_iff by blast
  have at_x: "(stock_of (working (sync_item ?mid x)) (item_product_id x) = None \<and>
         in_integer (int (item_product_id x))) \<or>
      stock_of (working (sync_item ?mid x)) (item_product_id x) = Some (external_stock x)"
    using missing_in_range [OF fin] by (auto simp: stock_of_sync_item [OF fin])
  have "(stock_of (working (sync_item ?mid x)) (item_product_id a) = None \<and>
         in_integer (int (item_product_id a))) \<or>
      stock_of (working (sync_item ?mid x)) (item_product_id a) = Some (external_stock a)"
    if "a \<in> set (xs @ [x])" for a
  proof (cases "a = x")
    case True
    with at_x show ?thesis by simp
  next
    case False
    with that have a: "a \<in> set xs" by simp
    show ?thesis
    proof (cases "item_product_id a = item_product_id x")
      case True
      with agreeing_last [OF snoc.prems(1) a] at_x show ?thesis by simp
    next
      case False
      with ih [OF a] show ?thesis by (simp add: stock_of_sync_item [OF fin])
    qed
  qed
  then show ?case
    unfolding settled_iff by simp
qed

text \<open>
  Claim C6, as the spec has it ("for every list of entries"), fails: with two entries
  for product 1 that carry 5 and 7, the first run succeeds, and the second run finds the
  stock at 7, moves it to 5 and back to 7, and so creates two movements.
\<close>

theorem syncInventory_idempotent_counterexample:
  "fst (syncInventory ''tenant_acme'' acme_db [entry 1 5, entry 1 7]) =
     Inr \<lparr> processed = 2, updated = 2, errors = [], movements_created = 2 \<rparr> \<and>
   fst (syncInventory ''tenant_acme''
          (snd (syncInventory ''tenant_acme'' acme_db [entry 1 5, entry 1 7]))
          [entry 1 5, entry 1 7]) =
     Inr \<lparr> processed = 2, updated = 2, errors = [], movements_created = 2 \<rparr>"
  by (simp add: syncInventory_def sync_loop_def sync_item_def entry_def acme_db_def sku1_def
        set_stock_def insert_movement_numbers in_integer_def reference_type_enum_def
        reference_id_fits_def cost_fits_def Let_def)

text \<open>
  Claim C6, amended. When the entries of the list agree (two entries for one product
  carry one \<open>external_stock\<close>) and the first run committed (the database refused none
  of its statements; entries whose product is missing are allowed), a second run of the
  sync with the same list, on the tables the first run left, finds every difference
  zero: it creates no movement, updates no stock and leaves the tables as they were.
\<close>

theorem syncInventory_second_run_idle:
  assumes "tenantSchema \<noteq> []"
    and "\<forall>a \<in> set syncData. \<forall>b \<in> set syncData.
           item_product_id a = item_product_id b \<longrightarrow> external_stock a = external_stock b"
    and "\<not> aborted (sync_loop db syncData)"
  shows "let db1 = snd (syncInventory tenantSchema db syncData)
         in \<exists>report. syncInventory tenantSchema db1 syncData = (Inr report, db1) \<and>
              movements_created report = 0 \<and> updated report = 0"
proof -
  let ?init = "\<lambda>d. \<lparr> working = d,
      results = \<lparr> processed = 0, updated = 0, errors = [], movements_created = 0 \<rparr>,
      aborted = False \<rparr>"
  let ?db1 = "working (sync_loop db syncData)"
  from assms(2) have ag: "agreeing syncData"
    unfolding agreeing_iff .
  from assms(3) have "\<not> aborted (foldl sync_item (?init db) syncData)"
    by (simp add: sync_loop_def)
  from foldl_sync_reaches_settled [OF ag this]
  have "settled (working (?init ?db1)) syncData"
    by (simp add: sync_loop_def)
  from foldl_sync_settled [OF this] assms(1,3) show ?thesis
    by (simp add: syncInventory_def sync_loop_def Let_def)
qed

lemma acme_sync_40:
  "sync_loop acme_db [entry 1 40, entry 9 3] =
     \<lparr> working = \<lparr> products = [sku1\<lparr>current_stock := 40\<rparr>],
         inventory_movements =
           [\<lparr> product_id = 1, movement_type = ''sincronizacion'', quantity = - 60,
              cost_per_unit = None, reference_type = ''sync'', reference_id = None,
              notes_txt = Some (''Sincronizaci'' @ [CHR 0xC3, CHR 0xB3] @ ''n externa''
                                @ '' - Diferencia: '' @ show_int (- 60)),
              previous_stock = 100, new_stock = 40 \<rparr>],
         insights = [] \<rparr>,
       results = \<lparr> processed = 1, updated = 1,
                   errors = [''Producto con ID '' @ show_nat 9 @ '' no encontrado''],
                   movements_created = 1 \<rparr>,
       aborted = False \<rparr>"
  by (simp add: sync_loop_def sync_item_def entry_def acme_db_def sku1_def set_stock_def
        insert_movement_numbers in_integer_def reference_type_enum_def reference_id_fits_def
        cost_fits_def push_error_def Let_def)

theorem syncInventory_second_run_idle_witness:
  "''tenant_acme'' \<noteq> [] \<and> agreeing [entry 1 40, entry 9 3] \<and>
   \<not> aborted (sync_loop acme_db [entry 1 40, entry 9 3]) \<and>
   (let db1 = snd (syncInventory ''tenant_acme'' acme_db [entry 1 40, entry 9 3])
    in \<exists>report. syncInventory ''tenant_acme'' db1 [entry 1 40, entry 9 3] = (Inr report, db1) \<and>
         movements_created report = 0 \<and> updated report = 0) \<and>
   stock_of (snd (syncInventory ''tenant_acme'' acme_db [entry 1 40, entry 9 3])) 1 = Some 40"
proof -
  have h1: "''tenant_acme'' \<noteq> []" by simp
  have h2: "\<forall>a \<in> set [entry 1 40, entry 9 3]. \<forall>b \<in> set [entry 1 40, entry 9 3].
      item_product_id a = item_product_id b \<longrightarrow> external_stock a = external_stock b"
    by (simp add: entry_def)
  have h3: "\<not> aborted (sync_loop acme_db [entry 1 40, entry 9 3])"
    using acme_sync_40 by simp
  have h4: "stock_of (snd (syncInventory ''tenant_acme'' acme_db [entry 1 40, entry 9 3])) 1 =
      Some 40"
    using acme_sync_40 by (simp add: syncInventory_def stock_of_def sku1_def Let_def)
  from h2 have h5: "agreeing [entry 1 40, entry 9 3]"
    unfolding agreeing_iff .
  from h1 h3 h4 h5 syncInventory_second_run_idle [OF h1 h2 h3]
  show ?thesis by blast
qed

text \<open>
  A first run that does not commit: the second entry carries a stock that no
  \<open>INTEGER\<close> column holds, its \<open>INSERT\<close> is refused, and \<open>COMMIT\<close> rolls back the
  movement of the first entry with it. The tables are as before, and a second run
  does the work of the first entry again.
\<close>

lemma syncInventory_refused_rolls_back:
  "snd (syncInventory ''tenant_acme'' pair_db [entry 1 40, entry 2 3000000000]) = pair_db \<and>
   (case fst (syncInventory ''tenant_acme'' pair_db [entry 1 40, entry 2 3000000000]) of
      Inl msg \<Rightarrow> False
    | Inr report \<Rightarrow> updated report = 1 \<and> movements_created report = 1 \<and>
                     length (errors report) = 1)"
  by (simp add: syncInventory_def sync_loop_def sync_item_def entry_def pair_db_def sku1_def
        sku2_def set_stock_def insert_movement_numbers in_integer_def reference_type_enum_def
        reference_id_fits_def cost_fits_def push_error_def Let_def)

section \<open>FIFO valuation\<close>

lemma entrada_rows_positive: "m \<in> set (entrada_rows db p) \<Longrightarrow> quantity m > 0"
  by (auto simp: entrada_rows_def)

text \<open>The cases in which the query returns what claim C5 says.\<close>

lemma fifo_value_no_layer:
  "entrada_rows db p = [] \<Longrightarrow> 0 \<le> current_stock p \<Longrightarrow>
     fifo_value db p = current_stock p * cost_price p"
  by (simp add: fifo_value_def sql_sum_def)

lemma fifo_value_one_layer:
  assumes "entrada_rows db p = [m]" and "0 \<le> current_stock p" and "current_stock p \<le> quantity m"
  shows "fifo_value db p =
           current_stock p * (case cost_per_unit m of Some c \<Rightarrow> c | None \<Rightarrow> cost_price p)"
proof -
  from assms(1) have "m \<in> set (entrada_rows db p)" by simp
  then have pos: "quantity m > 0" by (rule entrada_rows_positive)
  show ?thesis
  proof (cases "current_stock p > 0")
    case False
    with assms(2) show ?thesis by (simp add: fifo_value_def)
  next
    case True
    with assms pos show ?thesis
      by (simp add: fifo_value_def sql_sum_def layer_value_def Let_def)
  qed
qed

lemma getFIFOValuation_one:
  assumes "tenantSchema \<noteq> []" and "pid \<noteq> 0"
    and "filter (\<lambda>p. prod_id p = pid \<and> active p) (products db) = [p]"
  shows "getFIFOValuation tenantSchema db (Some pid) = Inr (One_row (Some (valuation_row db p)))"
  using assms by (simp add: getFIFOValuation_def Let_def)

lemma number_insert:
  "in_integer c \<Longrightarrow> in_integer ns \<Longrightarrow> rt \<in> set reference_type_enum \<Longrightarrow>
   reference_id_fits ri \<Longrightarrow> cost_fits cost \<Longrightarrow>
   insert_movement pid ty (Number c) s (Number ns) cost rt ri n =
     Inr \<lparr> product_id = pid, movement_type = ty, quantity = c, cost_per_unit = cost,
           reference_type = rt, reference_id = ri, notes_txt = n, previous_stock = s,
           new_stock = ns \<rparr>"
  by (simp add: insert_movement_numbers)

lemma sold_out_then_restocked:
  "record_all ''tenant_acme'' unstocked_db
     [purchase 100 300, move ''salida'' 100, purchase 50 200] =
     \<lparr> products = [sku1\<lparr>current_stock := 50\<rparr>],
       inventory_movements =
         [\<lparr> product_id = 1, movement_type = ''entrada'', quantity = 100,
            cost_per_unit = Some 300, reference_type = ''compra'', reference_id = None,
            notes_txt = None, previous_stock = 0, new_stock = 100 \<rparr>,
          \<lparr> product_id = 1, movement_type = ''salida'', quantity = - 100, cost_per_unit = None,
            reference_type = ''venta'', reference_id = None, notes_txt = None,
            previous_stock = 100, new_stock = 0 \<rparr>,
          \<lparr> product_id = 1, movement_type = ''entrada'', quantity = 50,
            cost_per_unit = Some 200, reference_type = ''compra'', reference_id = None,
            notes_txt = None, previous_stock = 0, new_stock = 50 \<rparr>],
       insights = [] \<rparr>"
  by (simp add: record_all_def addMovement_def unstocked_db_def sku1_def move_def purchase_def
        stockChange_of_def abs_quantity_def less_zero_def to_number_def js_plus_Number
        number_insert in_integer_def reference_type_enum_def reference_id_fits_def cost_fits_def
        set_stock_def Let_def)

lemma stock_predates_ledger:
  "snd (addMovement ''tenant_acme'' acme_db (purchase 10 300)) =
     \<lparr> products = [sku1\<lparr>current_stock := 110\<rparr>],
       inventory_movements =
         [\<lparr> product_id = 1, movement_type = ''entrada'', quantity = 10,
            cost_per_unit = Some 300, reference_type = ''compra'', reference_id = None,
            notes_txt = None, previous_stock = 100, new_stock = 110 \<rparr>],
       insights = [] \<rparr>"
  by (simp add: addMovement_def acme_db_def sku1_def purchase_def stockChange_of_def
        abs_quantity_def js_plus_Number number_insert in_integer_def reference_type_enum_def
        reference_id_fits_def cost_fits_def set_stock_def Let_def)

text \<open>
  Claim C5 at a failing input. Product 1 (cost price 2.00) is created with no stock;
  100 are bought at 3.00, the 100 are sold, and 50 are bought at 2.00. The whole stock
  of 50 comes from that last inbound movement, so the claim gives \<open>50 * 2.00 =
  100.00\<close>. The query keeps the rows whose running sum, counted from the newest,
  exceeds \<open>150 - 50\<close>: only the older purchase, which its \<open>CASE\<close> values at 0. The
  valuation returned is 0.00. The second half of the claim fails as well: with a stock of
  110 of which 100 predate the ledger and one purchase of 10 at 3.00, the valuation is
  30.00, the cost of the recorded layer, not the fallback \<open>110 * 2.00 = 220.00\<close>.
\<close>

theorem getFIFOValuation_drops_newest_layer:
  "getFIFOValuation ''tenant_acme''
     (record_all ''tenant_acme'' unstocked_db
        [purchase 100 300, move ''salida'' 100, purchase 50 200]) (Some 1) =
   Inr (One_row (Some \<lparr> v_product_id = 1, v_sku = ''SKU-1'', v_product_name = ''Widget'',
     v_current_stock = 50, v_current_cost = 200, fifo_valuation = 0,
     current_cost_valuation = 10000, selling_value_estimate = 17500,
     potential_profit = 17500 \<rparr>)) \<and>
   getFIFOValuation ''tenant_acme''
     (snd (addMovement ''tenant_acme'' acme_db (purchase 10 300))) (Some 1) =
   Inr (One_row (Some \<lparr> v_product_id = 1, v_sku = ''SKU-1'', v_product_name = ''Widget'',
     v_current_stock = 110, v_current_cost = 200, fifo_valuation = 3000,
     current_cost_valuation = 22000, selling_value_estimate = 38500,
     potential_profit = 35500 \<rparr>))"
  unfolding sold_out_then_restocked stock_predates_ledger
  by (simp add: getFIFOValuation_def sku1_def Let_def valuation_row_def fifo_value_def
        entrada_rows_def layer_value_def sql_sum_def)

text \<open>
  With one sale out of one purchase the valuation is the one of the claim: 70 left of
  100 bought at 2.00 are valued at 140.00.
\<close>

lemma getFIFOValuation_single_purchase:
  "getFIFOValuation ''tenant_acme''
     (record_all ''tenant_acme'' unstocked_db [purchase 100 200, move ''salida'' 30]) (Some 1) =
   Inr (One_row (Some \<lparr> v_product_id = 1, v_sku = ''SKU-1'', v_product_name = ''Widget'',
     v_current_stock = 70, v_current_cost = 200, fifo_valuation = 14000,
     current_cost_valuation = 14000, selling_value_estimate = 24500,
     potential_profit = 10500 \<rparr>))"
  by (simp add: record_all_def addMovement_def unstocked_db_def sku1_def move_def purchase_def
        stockChange_of_def abs_quantity_def less_zero_def to_number_def js_plus_Number
        number_insert in_integer_def reference_type_enum_def reference_id_fits_def cost_fits_def
        set_stock_def Let_def getFIFOValuation_def valuation_row_def fifo_value_def
        entrada_rows_def layer_value_def sql_sum_def)

section \<open>Insight generation\<close>

lemma create_fresh:
  assumes "tenantSchema \<noteq> []"
    and "new_insight_id (insight_type d) smp \<notin> insight_id ` set (insights db)"
  shows "create tenantSchema db smp d =
           (Inr (insight_row smp d), db\<lparr> insights := insights db @ [insight_row smp d] \<rparr>)"
  using assms by (simp add: create_def insight_row_def Let_def)

lemma stockout_queries:
  assumes "products db = [sku1\<lparr>current_stock := 0\<rparr>]"
  shows "outOfStock_query e db = [sku1\<lparr>current_stock := 0\<rparr>]"
    and "lowStock_query e db = []" and "overStock_query e db = []"
  using assms
  by (simp_all add: outOfStock_query_def lowStock_query_def overStock_query_def sku1_def)

lemma rule_block_empty:
  "query (snd st) = [] \<Longrightarrow> rule_block tenantSchema smp query build st = st"
  by (cases "fst st") (simp_all add: rule_block_def)

text \<open>
  A run on a product that is out of stock, with an identifier not yet in the table:
  the advisory of the first rule is created, whatever the table holds.
\<close>

lemma stockout_run:
  assumes "products db = [sku1\<lparr>current_stock := 0\<rparr>]"
    and "new_insight_id ''alert'' (fst smps) \<notin> insight_id ` set (insights db)"
  shows "generateInventoryInsights ''tenant_acme'' e db smps =
     (Inr [insight_row (fst smps)
             (outOfStock_insight (now (fst smps)) [sku1\<lparr>current_stock := 0\<rparr>])],
      db\<lparr> insights := insights db @
            [insight_row (fst smps)
               (outOfStock_insight (now (fst smps)) [sku1\<lparr>current_stock := 0\<rparr>])] \<rparr>)"
proof -
  have ty: "insight_type (outOfStock_insight t rows) = ''alert''" for t rows
    by (simp add: outOfStock_insight_def)
  have ts: "''tenant_acme'' \<noteq> []" by simp
  from assms(2) have fresh: "new_insight_id
      (insight_type (outOfStock_insight (now (fst smps)) [sku1\<lparr>current_stock := 0\<rparr>]))
      (fst smps) \<notin> insight_id ` set (insights db)"
    by (simp add: ty)
  have b1: "rule_block ''tenant_acme'' (fst smps) (outOfStock_query e) outOfStock_insight
              (Inr [], db) =
     (Inr [insight_row (fst smps)
             (outOfStock_insight (now (fst smps)) [sku1\<lparr>current_stock := 0\<rparr>])],
      db\<lparr> insights := insights db @
            [insight_row (fst smps)
               (outOfStock_insight (now (fst smps)) [sku1\<lparr>current_stock := 0\<rparr>])] \<rparr>)"
    by (simp add: rule_block_def stockout_queries [OF assms(1)] create_fresh [OF ts fresh]
          Let_def)
  have same: "products (db\<lparr> insights := x \<rparr>) = [sku1\<lparr>current_stock := 0\<rparr>]" for x
    using assms(1) by simp
  show ?thesis
    by (simp add: generateInventoryInsights_def b1 rule_block_empty stockout_queries [OF same]
          Let_def)
qed

lemma sample_ids:
  "new_insight_id ''alert'' \<lparr> now = 1000000, rnd = ''k9x1'' \<rparr> = ''alert_1000000_k9x1''"
  "new_insight_id ''alert'' \<lparr> now = 1060000, rnd = ''p4q1'' \<rparr> = ''alert_1060000_p4q1''"
  by (simp_all add: new_insight_id_def show_nat.simps digit_char_def)

lemma stockout_twice_insights:
  "insights (stockout_twice e) =
     [insight_row \<lparr> now = 1000000, rnd = ''k9x1'' \<rparr>
        (outOfStock_insight 1000000 [sku1\<lparr>current_stock := 0\<rparr>]),
      insight_row \<lparr> now = 1060000, rnd = ''p4q1'' \<rparr>
        (outOfStock_insight 1060000 [sku1\<lparr>current_stock := 0\<rparr>])]"
proof -
  let ?row1 = "insight_row \<lparr> now = 1000000, rnd = ''k9x1'' \<rparr>
        (outOfStock_insight 1000000 [sku1\<lparr>current_stock := 0\<rparr>])"
  let ?db1 = "unstocked_db\<lparr> insights := [?row1] \<rparr>"
  have run1: "snd (generateInventoryInsights ''tenant_acme'' e unstocked_db
                     (samples_at 1000000 ''k9x'')) = ?db1"
    by (subst stockout_run) (simp_all add: unstocked_db_def samples_at_def)
  have id1: "insight_id ?row1 = ''alert_1000000_k9x1''"
    by (simp add: insight_row_def outOfStock_insight_def sample_ids)
  have "insights (snd (generateInventoryInsights ''tenant_acme'' e ?db1
                         (samples_at 1060000 ''p4q''))) =
      [?row1, insight_row \<lparr> now = 1060000, rnd = ''p4q1'' \<rparr>
        (outOfStock_insight 1060000 [sku1\<lparr>current_stock := 0\<rparr>])]"
    by (subst stockout_run) (simp_all add: unstocked_db_def samples_at_def id1 sample_ids)
  with run1 show ?thesis
    by (simp add: stockout_twice_def)
qed

text \<open>
  Claim C7 at a failing input. Product 1 is out of stock; the inventory rules run at
  \<open>t = 1000000\<close> and again a minute later, on whatever engine. The second run inserts
  its advisory beside the first: the table then holds two active advisories with the
  natural key of the stock-out rule, both created within the 24 hours before the
  second run, where the claim has exactly one.
\<close>

theorem generateInventoryInsights_repeats_advisory:
  "map insight_id (insights (stockout_twice e)) =
     [''alert_1000000_k9x1'', ''alert_1060000_p4q1''] \<and>
   map created_at (insights (stockout_twice e)) = [1000000, 1060000] \<and>
   length (active_equivalents 1060000 (days_ms 1) (last (insights (stockout_twice e)))
             (insights (stockout_twice e))) = 2"
  by (simp add: stockout_twice_insights active_equivalents_def is_active_def natural_key_def
        insight_row_def outOfStock_insight_def sample_ids days_ms_def)

section \<open>Tenant resolution\<close>

lemma header_first: "truthy (x_tenant req) \<Longrightarrow> tenantCode_of req = x_tenant req"
  by (simp add: tenantCode_of_def)

text \<open>
  Without the header, a host name other than \<open>localhost\<close> and \<open>127.0.0.1\<close> keeps
  the URL parameter, the path and the query parameter from being read.
\<close>

lemma host_branch_decides:
  assumes "\<not> truthy (x_tenant req)" and "truthy (hostname req)"
    and "hostname req \<noteq> Some ''localhost''"
    and "\<not> startsWith (the (hostname req)) ''127.0.0.1''"
  shows "tenantCode_of (req\<lparr> params_tenantCode := pc, path := pa, query_tenant := q \<rparr>) =
         tenantCode_of req"
  using assms by (simp add: tenantCode_of_def)

text \<open>With no tenant code and a path outside the public routes, the answer is 400.\<close>

lemma no_tenant_code_rejected:
  "\<not> truthy (tenantCode_of req) \<Longrightarrow>
   \<not> list_ex (\<lambda>route. startsWith (path req) route) publicRoutes \<Longrightarrow>
   tenantMiddleware reg req = Respond tenant_required"
  by (simp add: tenantMiddleware_def Let_def)

text \<open>
  A request that carries no tenant signal is not always answered so: the first label of
  a host name of two labels is taken for a tenant code. A request for
  \<open>/api/products\<close> sent to \<open>fluxionai.com\<close> with no header, URL parameter or query
  parameter is answered \<open>404 TENANT_NOT_FOUND\<close> for tenant \<open>fluxionai\<close>.
\<close>

lemma bare_domain_taken_for_tenant:
  "tenantMiddleware demo_registry
     \<lparr> x_tenant = None, hostname = Some ''fluxionai.com'', params_tenantCode = None,
       path = ''/api/products'', query_tenant = None \<rparr> =
   Respond (Response 404 (JObj [(''error'', JStr ''TENANT_NOT_FOUND''),
     (''message'', JStr (''Tenant '' @ [CHR 0x27] @ ''fluxionai'' @ [CHR 0x27]
                          @ '' no encontrado o inactivo'')),
     (''tenant_code'', JStr ''fluxionai'')]))"
  by (simp add: tenantMiddleware_def tenantCode_of_def truthy_def publicRoutes_def Let_def
        getTenant_def demo_registry_def abc123_def)

text \<open>
  Claim C8 at a failing input. The request \<open>/api/products?tenant=abc123\<close> carries no
  \<open>X-Tenant\<close> header and no URL parameter; its query parameter is the first
  non-empty signal. Sent to host \<open>api.fluxionai.com\<close> (whose subdomain \<open>api\<close> is not
  taken as a tenant), it is answered \<open>400 TENANT_REQUIRED\<close>: the branch for the host
  name is entered and the query parameter is never read. Sent to \<open>localhost\<close>, the
  same request resolves tenant \<open>abc123\<close>.
\<close>

theorem tenantMiddleware_query_not_read:
  "tenantMiddleware demo_registry (query_request ''api.fluxionai.com'') =
     Respond tenant_required \<and>
   tenantMiddleware demo_registry (query_request ''localhost'') =
     Next_handler (Some \<lparr> req_tenant = abc123, req_tenantCode = ''abc123'',
                           req_tenantSchema = ''tenant_abc123'' \<rparr>)"
  by (simp add: tenantMiddleware_def tenantCode_of_def query_request_def truthy_def
        publicRoutes_def Let_def getTenant_def demo_registry_def abc123_def schemaExists_def
        schema_name_def)

section \<open>Deleting a tenant\<close>

text \<open>
  Claim C9. \<open>deleteTenant\<close> without the confirmation flag is rejected and changes
  nothing; the route answers \<open>400 CONFIRMATION_REQUIRED\<close> and changes nothing unless
  \<open>confirm\<close> is \<open>DELETE_EVERYTHING\<close>; when \<open>DROP SCHEMA\<close> fails the call is
  rejected and the registry is as before, the tenant's record included; and whenever
  a call removes the record of a tenant, the tenant's schema is gone too.
\<close>

theorem deleteTenant_guarded:
  "deleteTenant reg tenantCode False drop_error =
     (Inl (''Debe confirmar expl'' @ [CHR 0xC3, CHR 0xAD] @ ''citamente la eliminaci''
           @ [CHR 0xC3, CHR 0xB3] @ ''n del tenant''), reg) \<and>
   (confirm \<noteq> Some ''DELETE_EVERYTHING'' \<longrightarrow>
      (\<exists>rest. delete_tenant_route reg tenantCode confirm drop_error =
         (Response 400 (JObj ((''error'', JStr ''CONFIRMATION_REQUIRED'') # rest)), reg))) \<and>
   (\<exists>msg. deleteTenant reg tenantCode flag (Some e) = (Inl msg, reg)) \<and>
   (getTenant reg code = Some t \<and>
    code \<notin> tenant_code ` set (tenants (snd (deleteTenant reg code confirmed outcome))) \<longrightarrow>
      schema_name t \<notin> set (schemata (snd (deleteTenant reg code confirmed outcome))))"
proof (intro conjI impI)
  show "deleteTenant reg tenantCode False drop_error =
     (Inl (''Debe confirmar expl'' @ [CHR 0xC3, CHR 0xAD] @ ''citamente la eliminaci''
           @ [CHR 0xC3, CHR 0xB3] @ ''n del tenant''), reg)"
    by (simp add: deleteTenant_def)
next
  assume "confirm \<noteq> Some ''DELETE_EVERYTHING''"
  then show "\<exists>rest. delete_tenant_route reg tenantCode confirm drop_error =
         (Response 400 (JObj ((''error'', JStr ''CONFIRMATION_REQUIRED'') # rest)), reg)"
    by (simp add: delete_tenant_route_def)
next
  show "\<exists>msg. deleteTenant reg tenantCode flag (Some e) = (Inl msg, reg)"
    by (auto simp: deleteTenant_def split: option.splits)
next
  assume a: "getTenant reg code = Some t \<and>
    code \<notin> tenant_code ` set (tenants (snd (deleteTenant reg code confirmed outcome)))"
  then have "t \<in> set (tenants reg)" and "tenant_code t = code"
    by (auto simp: getTenant_def split: list.splits dest: filter_eq_ConsD)
  with a show "schema_name t \<notin> set (schemata (snd (deleteTenant reg code confirmed outcome)))"
    by (auto simp: deleteTenant_def split: if_splits option.splits)
qed

theorem deleteTenant_guarded_witness:
  "(None :: string option) \<noteq> Some ''DELETE_EVERYTHING'' \<and>
   (\<exists>rest. delete_tenant_route demo_registry ''abc123'' None None =
      (Response 400 (JObj ((''error'', JStr ''CONFIRMATION_REQUIRED'') # rest)), demo_registry)) \<and>
   (\<exists>msg. deleteTenant demo_registry ''abc123'' True (Some ''schema is in use'') =
      (Inl msg, demo_registry)) \<and>
   getTenant demo_registry ''abc123'' = Some abc123 \<and>
   ''abc123'' \<notin> tenant_code ` set (tenants (snd (deleteTenant demo_registry ''abc123'' True None))) \<and>
   schema_name abc123 \<notin> set (schemata (snd (deleteTenant demo_registry ''abc123'' True None)))"
proof -
  have h1: "(None :: string option) \<noteq> Some ''DELETE_EVERYTHING''" by simp
  have h2: "getTenant demo_registry ''abc123'' = Some abc123"
    by (simp add: getTenant_def demo_registry_def abc123_def)
  have h3: "''abc123'' \<notin> tenant_code `
      set (tenants (snd (deleteTenant demo_registry ''abc123'' True None)))"
  proof -
    have "tenants (snd (deleteTenant demo_registry ''abc123'' True None)) = []"
      by (simp add: deleteTenant_def h2) (simp add: demo_registry_def abc123_def)
    then show ?thesis by simp
  qed
  from h1 h2 h3
    deleteTenant_guarded [where reg = demo_registry and tenantCode = "''abc123''"
      and drop_error = None and confirm = None and flag = True and e = "''schema is in use''"
      and code = "''abc123''" and t = abc123 and confirmed = True and outcome = None]
  show ?thesis by blast
qed

section \<open>The unit cost stored with a movement\<close>

lemma insert_movement_keeps_cost:
  "insert_movement pid ty v s ns cost rt ri n = Inr m \<Longrightarrow> cost_per_unit m = cost"
  by (auto simp: insert_movement_def split: sum.splits if_splits)

lemma addMovement_keeps_cost:
  "fst (addMovement ts db r) = Inr m \<Longrightarrow> cost_per_unit m = cost_per_unit r"
  by (auto simp: addMovement_def Let_def insert_movement_keeps_cost
           split: if_splits list.splits sum.splits)

lemma recordMovement_defaults_cost:
  "filter (\<lambda>p. prod_id p = rq_product_id r \<and> active p) (products db) = p # rest \<Longrightarrow>
   rq_cost_per_unit r = None \<Longrightarrow> fst (recordMovement db r) = Inr m \<Longrightarrow>
   cost_per_unit m = Some (cost_price p)"
  by (auto simp: recordMovement_def Let_def split: if_splits)

text \<open>
  Claim C10 at a failing input. An inbound movement of 10 for product 1 (cost price
  2.00) is recorded with no unit cost supplied. \<open>addMovement\<close> stores
  \<open>cost_per_unit\<close> as \<open>NULL\<close>; \<open>recordMovement\<close> of the single-schema model, given
  the same movement, stores the product's cost price.
\<close>

theorem addMovement_cost_left_null:
  "fst (addMovement ''tenant_acme'' acme_db (move ''entrada'' 10)) =
     Inr \<lparr> product_id = 1, movement_type = ''entrada'', quantity = 10, cost_per_unit = None,
           reference_type = ''venta'', reference_id = None, notes_txt = None,
           previous_stock = 100, new_stock = 110 \<rparr> \<and>
   fst (recordMovement acme_db
          \<lparr> rq_product_id = 1, rq_movement_type = ''entrada'', rq_quantity = 10,
            rq_cost_per_unit = None, rq_reference_type = Some ''venta'',
            rq_reference_id = None, rq_notes = None \<rparr>) =
     Inr \<lparr> product_id = 1, movement_type = ''entrada'', quantity = 10,
           cost_per_unit = Some 200, reference_type = ''venta'', reference_id = None,
           notes_txt = None, previous_stock = 100, new_stock = 110 \<rparr>"
  by (simp add: addMovement_def recordMovement_def acme_db_def sku1_def move_def
        stockChange_of_def abs_quantity_def js_plus_Number number_insert in_integer_def
        reference_type_enum_def reference_id_fits_def cost_fits_def Let_def)

end
